theory Spec2Isabelle
  imports Main
begin

section \<open>Python values\<close>

subsection \<open>Strings\<close>

text \<open>
  Strings are ASCII: \<open>str.lower\<close> maps \<open>A..Z\<close> to \<open>a..z\<close>, and \<open>str.strip\<close> removes the
  ASCII characters for which \<open>str.isspace\<close> holds (codes 9 to 13 and 28 to 32) from both ends.
\<close>

definition is_space :: "char \<Rightarrow> bool" where
  "is_space c = ((9 \<le> (of_char c :: nat) \<and> (of_char c :: nat) \<le> 13) \<or>
                 (28 \<le> (of_char c :: nat) \<and> (of_char c :: nat) \<le> 32))"

definition lower_char :: "char \<Rightarrow> char" where
  "lower_char c = (if 65 \<le> (of_char c :: nat) \<and> (of_char c :: nat) \<le> 90
                   then char_of ((of_char c :: nat) + 32) else c)"

definition lower :: "string \<Rightarrow> string" where
  "lower s = map lower_char s"

definition strip :: "string \<Rightarrow> string" where
  "strip s = rev (dropWhile is_space (rev (dropWhile is_space s)))"

definition startswith :: "string \<Rightarrow> string \<Rightarrow> bool" where
  "startswith s p = (take (length p) s = p)"

text \<open>\<open>sub in s\<close>: \<open>sub\<close> occurs in \<open>s\<close> as a contiguous substring.\<close>

fun substring_in :: "string \<Rightarrow> string \<Rightarrow> bool" where
  "substring_in sub [] = (sub = [])"
| "substring_in sub (c # cs) = (startswith (c # cs) sub \<or> substring_in sub cs)"

text \<open>\<open>s.split(sep)\<close> for a one-character separator.\<close>

fun split :: "char \<Rightarrow> string \<Rightarrow> string list" where
  "split sep [] = [[]]"
| "split sep (c # cs) =
     (if c = sep then [] # split sep cs
      else (case split sep cs of
              [] \<Rightarrow> [[c]]
            | p # ps \<Rightarrow> (c # p) # ps))"

subsection \<open>Integers and their text\<close>

definition is_digit :: "char \<Rightarrow> bool" where
  "is_digit c = (48 \<le> (of_char c :: nat) \<and> (of_char c :: nat) \<le> 57)"

text \<open>The body of a decimal literal: digits, with single underscores between digits.\<close>

fun digits_ok :: "string \<Rightarrow> bool" where
  "digits_ok [] = False"
| "digits_ok [c] = is_digit c"
| "digits_ok (c # d # cs) =
     (is_digit c \<and> (if d = CHR ''_'' then digits_ok cs else digits_ok (d # cs)))"

definition digits_value :: "string \<Rightarrow> int" where
  "digits_value s = foldl (\<lambda>acc c. 10 * acc + (int (of_char c) - 48)) 0 (filter is_digit s)"

text \<open>\<open>int(s)\<close> in base 10; \<open>None\<close> stands for the \<open>ValueError\<close>.\<close>

definition py_int :: "string \<Rightarrow> int option" where
  "py_int s =
     (case strip s of
        [] \<Rightarrow> None
      | c # cs \<Rightarrow>
          if c = CHR ''-'' then (if digits_ok cs then Some (- digits_value cs) else None)
          else if c = CHR ''+'' then (if digits_ok cs then Some (digits_value cs) else None)
          else if digits_ok (c # cs) then Some (digits_value (c # cs)) else None)"

fun str_nat :: "nat \<Rightarrow> string" where
  "str_nat n = (if n < 10 then [char_of (48 + n)]
                else str_nat (n div 10) @ [char_of (48 + n mod 10)])"

definition str_int :: "int \<Rightarrow> string" where
  "str_int i = (if i < 0 then CHR ''-'' # str_nat (nat (- i)) else str_nat (nat i))"

subsection \<open>Decoded JSON payloads\<close>

text \<open>
  The values a JSON column or a request body decodes to. The model covers the scalars
  \<open>None\<close>, \<open>bool\<close>, \<open>int\<close> and \<open>str\<close>; lists, objects and floating-point numbers are
  left out. \<open>py_eq\<close> is Python's \<open>==\<close> on these values (\<open>bool\<close> is a subclass of \<open>int\<close>,
  so \<open>True == 1\<close>), \<open>py_str\<close> is \<open>str(...)\<close>.
\<close>

datatype json = JNull | JBool bool | JInt int | JStr string

fun py_eq :: "json \<Rightarrow> json \<Rightarrow> bool" where
  "py_eq JNull JNull = True"
| "py_eq (JBool a) (JBool b) = (a = b)"
| "py_eq (JBool a) (JInt j) = ((if a then 1 else 0) = j)"
| "py_eq (JInt i) (JBool b) = (i = (if b then 1 else 0))"
| "py_eq (JInt i) (JInt j) = (i = j)"
| "py_eq (JStr s) (JStr t) = (s = t)"
| "py_eq _ _ = False"

fun py_str :: "json \<Rightarrow> string" where
  "py_str JNull = ''None''"
| "py_str (JBool b) = (if b then ''True'' else ''False'')"
| "py_str (JInt i) = str_int i"
| "py_str (JStr s) = s"

subsection \<open>Floating point\<close>

text \<open>
  Python's \<open>float\<close> is IEEE 754 binary64. A finite double is written \<open>Finite m e\<close> for the
  value \<open>m * 2 ^ e\<close>. Every operation rounds its exact result to the nearest double, ties to
  the even significand: 53 significant bits, least exponent \<open>-1074\<close>, largest finite value
  \<open>(2 ^ 53 - 1) * 2 ^ 971\<close>.
\<close>

datatype py_error = ZeroDivisionError | OverflowError | TypeError

datatype double = Finite int int | Infinity bool

fun bit_length :: "nat \<Rightarrow> nat" where
  "bit_length n = (if n = 0 then 0 else Suc (bit_length (n div 2)))"

text \<open>For positive \<open>p\<close> and \<open>q\<close>: the \<open>e\<close> with \<open>2 ^ e \<le> p / q < 2 ^ (e + 1)\<close>.\<close>

definition floor_log2 :: "nat \<Rightarrow> nat \<Rightarrow> int" where
  "floor_log2 p q =
     (let k = int (bit_length p) - int (bit_length q)
      in if q * 2 ^ nat k \<le> p * 2 ^ nat (- k) then k else k - 1)"

definition round_half_even :: "nat \<Rightarrow> nat \<Rightarrow> nat" where
  "round_half_even p q =
     (let d = p div q; r = p mod q
      in if 2 * r < q then d
         else if q < 2 * r then d + 1
         else if even d then d else d + 1)"

text \<open>
  The double nearest to \<open>p / q\<close> (\<open>q > 0\<close>), as significand and exponent; \<open>None\<close> when the
  rounded value exceeds the largest finite double.
\<close>

definition round_double :: "nat \<Rightarrow> nat \<Rightarrow> (nat \<times> int) option" where
  "round_double p q =
     (if p = 0 then Some (0, 0)
      else let e = max (floor_log2 p q - 52) (- 1074);
               n = round_half_even (p * 2 ^ nat (- e)) (q * 2 ^ nat e)
           in if 971 < e \<or> (e = 971 \<and> 2 ^ 53 \<le> n) then None else Some (n, e))"

text \<open>\<open>a / b\<close> on integers: the correctly rounded quotient.\<close>

definition true_divide :: "int \<Rightarrow> int \<Rightarrow> py_error + double" where
  "true_divide a b =
     (if b = 0 then Inl ZeroDivisionError
      else (case round_double (nat \<bar>a\<bar>) (nat \<bar>b\<bar>) of
              None \<Rightarrow> Inl OverflowError
            | Some (n, e) \<Rightarrow> Inr (Finite (if (a < 0) = (b < 0) then int n else - int n) e)))"

text \<open>\<open>x * k\<close> for a float \<open>x\<close> and an integer \<open>k\<close> that is itself a double (as \<open>100\<close> is).\<close>

definition float_mul_int :: "double \<Rightarrow> int \<Rightarrow> double" where
  "float_mul_int x k =
     (case x of
        Infinity neg \<Rightarrow> Infinity (neg \<noteq> (k < 0))
      | Finite m e \<Rightarrow>
          (case round_double (nat \<bar>m * k\<bar> * 2 ^ nat e) (2 ^ nat (- e)) of
             None \<Rightarrow> Infinity (m * k < 0)
           | Some (n, e') \<Rightarrow> Finite (if m * k < 0 then - int n else int n) e'))"

text \<open>\<open>int(x)\<close>: truncation toward zero; an infinity raises \<open>OverflowError\<close>.\<close>

definition int_of_float :: "double \<Rightarrow> py_error + int" where
  "int_of_float x =
     (case x of
        Infinity neg \<Rightarrow> Inl OverflowError
      | Finite m e \<Rightarrow>
          Inr (if 0 \<le> e then m * 2 ^ nat e
               else if 0 \<le> m then m div 2 ^ nat (- e)
               else - ((- m) div 2 ^ nat (- e))))"

section \<open>Persistent store\<close>

text \<open>
  The SQLAlchemy session is modelled as a record of tables, each table a list of rows in
  storage order. \<open>query(...).filter(...).first()\<close> is \<open>find\<close> on that list,
  \<open>.all()\<close> is \<open>filter\<close>. A mapped object is identified by its primary key, so
  mutating an object and committing rewrites the row that carries the object's key.
  \<open>datetime.utcnow()\<close> is an input of every operation that reads the clock.
\<close>

type_synonym datetime = int

text \<open>Table \<open>progress\<close> (class \<open>Progress\<close> of \<open>app/models/models.py\<close>).\<close>

record progress =
  p_id :: int
  p_student_id :: int
  p_exercise_id :: int
  p_status :: string
  p_attempts :: int
  p_best_score :: "int option"
  p_completed_at :: "datetime option"
  p_created_at :: datetime
  p_updated_at :: datetime

text \<open>Table \<open>exercise_submissions\<close> (class \<open>ExerciseSubmission\<close>).\<close>

record exercise_submission =
  es_id :: int
  es_student_id :: int
  es_exercise_id :: int
  es_code :: string
  es_language :: string
  es_status :: string
  es_score :: "int option"
  es_feedback :: "string option"
  es_submitted_at :: datetime
  es_completed_at :: "datetime option"

text \<open>An autoincrement primary key: one more than the largest key in the table.\<close>

definition fresh_id :: "int list \<Rightarrow> int" where
  "fresh_id ids = fold max ids 0 + 1"

text \<open>
  Tables \<open>quizzes\<close>, \<open>quiz_questions\<close>, \<open>quiz_submissions\<close> and \<open>quiz_answers\<close>. Of a quiz
  and a question only the columns the assessment engine reads are kept. \<open>passing_score\<close> is
  nullable: \<open>QuizUpdate\<close> accepts an explicit null for it.
\<close>

record quiz =
  quiz_id :: int
  quiz_teacher_id :: "int option"
  quiz_passing_score :: "int option"

record quiz_question =
  qq_id :: int
  qq_quiz_id :: int
  qq_question_type :: string
  qq_correct_answer :: json
  qq_points :: int

record quiz_submission =
  qs_id :: int
  qs_student_id :: int
  qs_quiz_id :: int
  qs_started_at :: datetime
  qs_completed_at :: "datetime option"
  qs_score :: "int option"
  qs_passed :: bool

record quiz_answer =
  qa_id :: int
  qa_submission_id :: int
  qa_question_id :: int
  qa_answer_text :: json
  qa_is_correct :: bool
  qa_points_earned :: int
  qa_answered_at :: datetime

record database =
  progress_tbl :: "progress list"
  exercise_submissions_tbl :: "exercise_submission list"
  quizzes_tbl :: "quiz list"
  quiz_questions_tbl :: "quiz_question list"
  quiz_submissions_tbl :: "quiz_submission list"
  quiz_answers_tbl :: "quiz_answer list"

definition empty_db :: database where
  "empty_db = \<lparr> progress_tbl = [], exercise_submissions_tbl = [], quizzes_tbl = [],
                 quiz_questions_tbl = [], quiz_submissions_tbl = [], quiz_answers_tbl = [] \<rparr>"

section \<open>Identity context (\<open>app/routes/auth.py\<close>)\<close>

text \<open>
  Of a request the handlers read the URL path and the \<open>X-Session-ID\<close> header. An
  \<open>HTTPException\<close> is kept as its status code.
\<close>

record request =
  url_path :: string
  x_session_id :: "string option"

datatype http_exception = HTTPException nat

record user_payload =
  user_id :: int
  email :: string
  role :: string

definition protected_endpoints :: "string list" where
  "protected_endpoints =
     [''/api/auth/me'', ''/api/auth/change-password'', ''/api/auth/me/teacher'',
      ''/api/quizzes/teacher'', ''/api/quizzes/'', ''/api/analytics/students'',
      ''/api/analytics/student/'', ''/api/topics/'', ''/api/exercises'', ''/api/exercises/'',
      ''/api/chat/sessions'', ''/api/chat/messages'']"

definition skip_auth_endpoints :: "string list" where
  "skip_auth_endpoints =
     [''/api/auth/login'', ''/api/auth/login/teacher'', ''/api/auth/register'',
      ''/api/auth/register/teacher'']"

text \<open>
  \<open>get_current_user_payload\<close>: on a protected path the session header \<open>ROLE|USERID|EMAIL\<close>
  is parsed, and every failure is a 401; on any other path the anonymous payload is returned.
\<close>

definition get_current_user_payload :: "request \<Rightarrow> http_exception + user_payload" where
  "get_current_user_payload request =
     (let is_protected = (list_ex (startswith (url_path request)) protected_endpoints \<or>
                          substring_in ''/teacher'' (url_path request));
          should_skip_auth = list_ex (startswith (url_path request)) skip_auth_endpoints
      in if is_protected \<and> \<not> should_skip_auth then
           (case x_session_id request of
              None \<Rightarrow> Inl (HTTPException 401)
            | Some session_id \<Rightarrow>
                if session_id = [] then Inl (HTTPException 401)
                else (case split (CHR ''|'') session_id of
                        [r, u, m] \<Rightarrow>
                          (case py_int u of
                             None \<Rightarrow> Inl (HTTPException 401)
                           | Some uid \<Rightarrow> Inr \<lparr> user_id = uid, email = m, role = r \<rparr>)
                      | _ \<Rightarrow> Inl (HTTPException 401)))
         else Inr \<lparr> user_id = 0, email = [], role = ''anonymous'' \<rparr>)"

definition get_current_teacher_id :: "request \<Rightarrow> http_exception + int" where
  "get_current_teacher_id request =
     (case get_current_user_payload request of
        Inl e \<Rightarrow> Inl e
      | Inr payload \<Rightarrow>
          if user_id payload = 0 then Inl (HTTPException 401)
          else if role payload \<noteq> ''teacher'' then Inl (HTTPException 403)
          else Inr (user_id payload))"

section \<open>Progress tracker (\<open>app/services/exercise_service.py\<close>, \<open>ProgressService\<close>)\<close>

definition progress_key :: "int \<Rightarrow> int \<Rightarrow> progress \<Rightarrow> bool" where
  "progress_key student_id exercise_id p =
     (p_student_id p = student_id \<and> p_exercise_id p = exercise_id)"

definition save_progress :: "progress \<Rightarrow> progress list \<Rightarrow> progress list" where
  "save_progress p tbl = map (\<lambda>r. if p_id r = p_id p then p else r) tbl"

text \<open>
  \<open>create_progress\<close>: a row with status \<open>in_progress\<close>; the column defaults give
  \<open>attempts = 0\<close>, no best score and no completion time.
\<close>

definition create_progress :: "database \<Rightarrow> int \<Rightarrow> int \<Rightarrow> datetime \<Rightarrow> database \<times> progress" where
  "create_progress db student_id exercise_id now =
     (let progress = \<lparr> p_id = fresh_id (map p_id (progress_tbl db)),
                         p_student_id = student_id,
                         p_exercise_id = exercise_id,
                         p_status = ''in_progress'',
                         p_attempts = 0,
                         p_best_score = None,
                         p_completed_at = None,
                         p_created_at = now,
                         p_updated_at = now \<rparr>
      in (db\<lparr>progress_tbl := progress_tbl db @ [progress]\<rparr>, progress))"

text \<open>
  \<open>update_progress\<close>: look the row up (creating it when absent), overwrite the status,
  add one to \<open>attempts\<close>, raise \<open>best_score\<close> when the call carries a larger score, stamp
  \<open>completed_at\<close> when the status is \<open>completed\<close>, commit.
\<close>

definition update_progress ::
  "database \<Rightarrow> int \<Rightarrow> int \<Rightarrow> string \<Rightarrow> int option \<Rightarrow> datetime \<Rightarrow> database \<times> progress" where
  "update_progress db student_id exercise_id status score now =
     (let (db1, progress) =
            (case find (progress_key student_id exercise_id) (progress_tbl db) of
               None \<Rightarrow> create_progress db student_id exercise_id now
             | Some p \<Rightarrow> (db, p));
          progress1 = progress\<lparr>p_status := status, p_attempts := p_attempts progress + 1\<rparr>;
          progress2 =
            (case score of
               None \<Rightarrow> progress1
             | Some s \<Rightarrow>
                 (case p_best_score progress1 of
                    None \<Rightarrow> progress1\<lparr>p_best_score := Some s\<rparr>
                  | Some b \<Rightarrow> if s > b then progress1\<lparr>p_best_score := Some s\<rparr> else progress1));
          progress3 =
            (if status = ''completed'' then progress2\<lparr>p_completed_at := Some now\<rparr>
             else progress2);
          progress4 = progress3\<lparr>p_updated_at := now\<rparr>
      in (db1\<lparr>progress_tbl := save_progress progress4 (progress_tbl db1)\<rparr>, progress4))"

text \<open>A sequence of calls for one (student, exercise) pair: status, score and clock of each.\<close>

fun update_progress_seq ::
  "database \<Rightarrow> int \<Rightarrow> int \<Rightarrow> (string \<times> int option \<times> datetime) list \<Rightarrow> database" where
  "update_progress_seq db student_id exercise_id [] = db"
| "update_progress_seq db student_id exercise_id ((status, score, now) # calls) =
     update_progress_seq (fst (update_progress db student_id exercise_id status score now))
       student_id exercise_id calls"

text \<open>The largest score among the calls that carried one; \<open>None\<close> when no call did.\<close>

fun max_of_scores :: "int option list \<Rightarrow> int option" where
  "max_of_scores [] = None"
| "max_of_scores (None # xs) = max_of_scores xs"
| "max_of_scores (Some s # xs) = (case max_of_scores xs of None \<Rightarrow> Some s | Some m \<Rightarrow> Some (max s m))"

text \<open>Order on nullable scores: null is below every score.\<close>

fun score_le :: "int option \<Rightarrow> int option \<Rightarrow> bool" where
  "score_le None _ = True"
| "score_le (Some a) None = False"
| "score_le (Some a) (Some b) = (a \<le> b)"


subsection \<open>Properties of the progress tracker\<close>

text \<open>The larger of two nullable scores.\<close>

fun opt_max :: "int option \<Rightarrow> int option \<Rightarrow> int option" where
  "opt_max None b = b"
| "opt_max (Some a) None = Some a"
| "opt_max (Some a) (Some b) = Some (max a b)"

lemma max_of_scores_Cons: "max_of_scores (x # xs) = opt_max x (max_of_scores xs)"
  by (cases x; cases "max_of_scores xs") auto

lemma opt_max_assoc: "opt_max (opt_max a b) c = opt_max a (opt_max b c)"
  by (cases a; cases b; cases c) auto

lemma opt_max_commute: "opt_max a b = opt_max b a"
  by (cases a; cases b) auto

lemma opt_max_left_commute: "opt_max a (opt_max b c) = opt_max b (opt_max a c)"
  by (cases a; cases b; cases c) auto

lemma score_le_opt_max: "score_le b (opt_max a b)"
  by (cases a; cases b) auto

lemma find_save_progress:
  "find P tbl = Some p \<Longrightarrow> P q \<Longrightarrow> p_id q = p_id p \<Longrightarrow> find P (save_progress q tbl) = Some q"
proof (induction tbl)
  case Nil
  then show ?case by simp
next
  case (Cons r rs)
  show ?case
  proof (cases "P r")
    case True
    with Cons.prems show ?thesis by (simp add: save_progress_def)
  next
    case False
    with Cons show ?thesis by (simp add: save_progress_def)
  qed
qed

lemma find_save_progress_new:
  "find P tbl = None \<Longrightarrow> P q \<Longrightarrow> p_id q = p_id n \<Longrightarrow>
   find P (save_progress q (tbl @ [n])) = Some q"
  by (induction tbl) (auto simp: save_progress_def)


definition bumped :: "progress \<Rightarrow> string \<Rightarrow> int option \<Rightarrow> datetime \<Rightarrow> progress \<Rightarrow> bool" where
  "bumped p status score now row =
     (p_id row = p_id p \<and> p_student_id row = p_student_id p \<and> p_exercise_id row = p_exercise_id p \<and>
      p_status row = status \<and> p_attempts row = p_attempts p + 1 \<and>
      p_best_score row = opt_max score (p_best_score p) \<and>
      p_completed_at row = (if status = ''completed'' then Some now else p_completed_at p))"

lemma update_progress_existing:
  assumes "find (progress_key s e) (progress_tbl db) = Some p"
  shows "\<exists>row. update_progress db s e status score now =
           (db\<lparr>progress_tbl := save_progress row (progress_tbl db)\<rparr>, row) \<and>
           bumped p status score now row"
  using assms
  by (cases score; cases "p_best_score p")
     (auto simp: update_progress_def bumped_def Let_def max_def)

lemma update_progress_absent:
  assumes "find (progress_key s e) (progress_tbl db) = None"
  shows "\<exists>row. update_progress db s e status score now =
           (db\<lparr>progress_tbl := save_progress row (progress_tbl db @ [snd (create_progress db s e now)])\<rparr>, row) \<and>
           bumped (snd (create_progress db s e now)) status score now row"
  using assms
  by (cases score)
     (auto simp: update_progress_def bumped_def Let_def create_progress_def)

lemma find_Some_key: "find P xs = Some x \<Longrightarrow> P x"
  by (induction xs) (auto split: if_splits)

lemma update_progress_stored_existing:
  assumes "find (progress_key s e) (progress_tbl db) = Some p"
  shows "find (progress_key s e) (progress_tbl (fst (update_progress db s e status score now))) =
           Some (snd (update_progress db s e status score now)) \<and>
         bumped p status score now (snd (update_progress db s e status score now))"
proof -
  from update_progress_existing[OF assms, of status score now] obtain row where
    r: "update_progress db s e status score now =
           (db\<lparr>progress_tbl := save_progress row (progress_tbl db)\<rparr>, row)"
    and b: "bumped p status score now row" by blast
  have "progress_key s e p" using assms by (rule find_Some_key)
  with b have k: "progress_key s e row" by (simp add: progress_key_def bumped_def)
  have "find (progress_key s e) (save_progress row (progress_tbl db)) = Some row"
    using assms k b by (intro find_save_progress) (auto simp: bumped_def)
  with r b show ?thesis by simp
qed

lemma update_progress_stored_absent:
  assumes "find (progress_key s e) (progress_tbl db) = None"
  shows "find (progress_key s e) (progress_tbl (fst (update_progress db s e status score now))) =
           Some (snd (update_progress db s e status score now)) \<and>
         bumped (snd (create_progress db s e now)) status score now
           (snd (update_progress db s e status score now))"
proof -
  let ?n = "snd (create_progress db s e now)"
  from update_progress_absent[OF assms, of status score now] obtain row where
    r: "update_progress db s e status score now =
           (db\<lparr>progress_tbl := save_progress row (progress_tbl db @ [?n])\<rparr>, row)"
    and b: "bumped ?n status score now row" by blast
  have "progress_key s e ?n" by (simp add: create_progress_def progress_key_def Let_def)
  with b have k: "progress_key s e row" by (simp add: progress_key_def bumped_def)
  have "find (progress_key s e) (save_progress row (progress_tbl db @ [?n])) = Some row"
    using assms k b by (intro find_save_progress_new) (auto simp: bumped_def)
  with r b show ?thesis by simp
qed

lemma update_progress_seq_existing:
  "find (progress_key s e) (progress_tbl db) = Some p \<Longrightarrow>
   \<exists>row. find (progress_key s e) (progress_tbl (update_progress_seq db s e calls)) = Some row \<and>
         p_attempts row = p_attempts p + int (length calls) \<and>
         p_best_score row = opt_max (max_of_scores (map (\<lambda>c. fst (snd c)) calls)) (p_best_score p)"
proof (induction calls arbitrary: db p)
  case Nil
  then show ?case by simp
next
  case (Cons c calls)
  obtain status score now where c: "c = (status, score, now)" by (cases c)
  define row where "row = snd (update_progress db s e status score now)"
  from update_progress_stored_existing[OF Cons.prems, of status score now] have
    f: "find (progress_key s e) (progress_tbl (fst (update_progress db s e status score now))) = Some row"
    and b: "bumped p status score now row" by (simp_all add: row_def)
  from Cons.IH[OF f] obtain row' where
    "find (progress_key s e) (progress_tbl (update_progress_seq (fst (update_progress db s e status score now)) s e calls)) = Some row'"
    "p_attempts row' = p_attempts row + int (length calls)"
    "p_best_score row' = opt_max (max_of_scores (map (\<lambda>c. fst (snd c)) calls)) (p_best_score row)" by blast
  with b c show ?case
    by (simp add: bumped_def max_of_scores_Cons opt_max_assoc opt_max_commute opt_max_left_commute)
qed

lemma opt_max_None_right: "opt_max a None = a"
  by (cases a) auto


text \<open>
  Claim C2. For a (student, exercise) pair with no progress row, any non-empty sequence of
  \<open>update_progress\<close> calls for the pair (each call returns; the first one creates the row)
  leaves one row found for the pair whose \<open>attempts\<close> is the number of calls and whose
  \<open>best_score\<close> is the largest score passed, or null when no call passed a score; and one
  more call adds one to \<open>attempts\<close> and never lowers \<open>best_score\<close>.
\<close>

theorem update_progress_seq_attempts_best:
  assumes absent: "find (progress_key s e) (progress_tbl db) = None"
    and calls: "calls \<noteq> []"
  shows "\<exists>row. find (progress_key s e) (progress_tbl (update_progress_seq db s e calls)) = Some row \<and>
           p_attempts row = int (length calls) \<and>
           p_best_score row = max_of_scores (map (\<lambda>c. fst (snd c)) calls) \<and>
           (\<forall>status score now.
              p_attempts (snd (update_progress (update_progress_seq db s e calls) s e status score now))
                = p_attempts row + 1 \<and>
              score_le (p_best_score row)
                (p_best_score (snd (update_progress (update_progress_seq db s e calls) s e status score now))))"
proof -
  from calls obtain status score now rest where c: "calls = (status, score, now) # rest"
    by (cases calls) auto
  let ?db1 = "fst (update_progress db s e status score now)"
  define first where "first = snd (update_progress db s e status score now)"
  from update_progress_stored_absent[OF absent, of status score now] have
    f: "find (progress_key s e) (progress_tbl ?db1) = Some first"
    and b: "bumped (snd (create_progress db s e now)) status score now first"
    by (simp_all add: first_def)
  have a1: "p_attempts first = 1" and b1: "p_best_score first = score"
    using b by (simp_all add: bumped_def create_progress_def Let_def opt_max_None_right)
  from update_progress_seq_existing[OF f, of rest] obtain row where
    r: "find (progress_key s e) (progress_tbl (update_progress_seq ?db1 s e rest)) = Some row"
    and ra: "p_attempts row = p_attempts first + int (length rest)"
    and rb: "p_best_score row = opt_max (max_of_scores (map (\<lambda>c. fst (snd c)) rest)) (p_best_score first)"
    by blast
  have seq: "update_progress_seq db s e calls = update_progress_seq ?db1 s e rest"
    by (simp add: c)
  have next_call: "p_attempts (snd (update_progress (update_progress_seq db s e calls) s e st sc t))
                = p_attempts row + 1 \<and>
              score_le (p_best_score row)
                (p_best_score (snd (update_progress (update_progress_seq db s e calls) s e st sc t)))"
    for st sc t
  proof -
    from r seq have "find (progress_key s e) (progress_tbl (update_progress_seq db s e calls)) = Some row"
      by simp
    from update_progress_stored_existing[OF this, of st sc t] show ?thesis
      by (simp add: bumped_def score_le_opt_max)
  qed
  have "p_attempts row = int (length calls)" using ra a1 c by simp
  moreover have "p_best_score row = max_of_scores (map (\<lambda>c. fst (snd c)) calls)"
    using rb b1 c by (simp add: max_of_scores_Cons opt_max_commute)
  ultimately show ?thesis using r seq next_call by auto
qed

theorem update_progress_seq_attempts_best_witness:
  "find (progress_key 1 5) (progress_tbl empty_db) = None \<and>
   [(''completed'', Some 80, 1000), (''completed'', Some 60, 2000)] \<noteq> [] \<and>
   (\<exists>row. find (progress_key 1 5)
            (progress_tbl (update_progress_seq empty_db 1 5
               [(''completed'', Some 80, 1000), (''completed'', Some 60, 2000)])) = Some row \<and>
          p_attempts row = 2 \<and> p_best_score row = Some 80)"
proof -
  let ?db = "empty_db"
  let ?calls = "[(''completed'', Some (80::int), 1000::int), (''completed'', Some 60, 2000)]"
  have h1: "find (progress_key 1 5) (progress_tbl ?db) = None" by (simp add: empty_db_def)
  have h2: "?calls \<noteq> []" by simp
  from update_progress_seq_attempts_best[OF h1 h2] obtain row where
    "find (progress_key 1 5) (progress_tbl (update_progress_seq ?db 1 5 ?calls)) = Some row"
    "p_attempts row = int (length ?calls)"
    "p_best_score row = max_of_scores (map (\<lambda>c. fst (snd c)) ?calls)"
    by blast
  then have "find (progress_key 1 5) (progress_tbl (update_progress_seq ?db 1 5 ?calls)) = Some row \<and>
          p_attempts row = 2 \<and> p_best_score row = Some 80"
    by simp
  then show ?thesis using h1 by blast
qed

text \<open>
  Claim C10. \<open>update_progress\<close> never clears \<open>completed_at\<close>: a call whose status is not
  \<open>completed\<close> leaves the stored value as it was (null for a row the call creates), a call
  whose status is \<open>completed\<close> sets it to the current time; the row returned is the row
  stored for the pair.
\<close>

theorem update_progress_completed_at:
  "p_completed_at (snd (update_progress db s e status score now)) =
     (if status = ''completed'' then Some now
      else (case find (progress_key s e) (progress_tbl db) of
              None \<Rightarrow> None
            | Some p \<Rightarrow> p_completed_at p)) \<and>
   find (progress_key s e) (progress_tbl (fst (update_progress db s e status score now))) =
     Some (snd (update_progress db s e status score now))"
proof (cases "find (progress_key s e) (progress_tbl db)")
  case None
  from update_progress_stored_absent[OF None, of status score now] show ?thesis
    by (simp add: None bumped_def create_progress_def Let_def)
next
  case (Some p)
  from update_progress_stored_existing[OF Some, of status score now] show ?thesis
    by (simp add: Some bumped_def)
qed

section \<open>Exercise submissions (\<open>app/services/exercise_service.py\<close>, \<open>SubmissionService\<close>)\<close>

definition get_submission :: "database \<Rightarrow> int \<Rightarrow> exercise_submission option" where
  "get_submission db submission_id =
     find (\<lambda>s. es_id s = submission_id) (exercise_submissions_tbl db)"

definition save_submission ::
  "exercise_submission \<Rightarrow> exercise_submission list \<Rightarrow> exercise_submission list" where
  "save_submission s tbl = map (\<lambda>r. if es_id r = es_id s then s else r) tbl"

text \<open>
  \<open>update_submission_status\<close>: an unknown id returns \<open>None\<close> and changes nothing; otherwise
  the status is overwritten, score and feedback when given, and \<open>completed_at\<close> is stamped
  when the status is \<open>passing\<close>.
\<close>

definition update_submission_status ::
  "database \<Rightarrow> int \<Rightarrow> string \<Rightarrow> int option \<Rightarrow> string option \<Rightarrow> datetime \<Rightarrow>
   database \<times> exercise_submission option" where
  "update_submission_status db submission_id status score feedback now =
     (case find (\<lambda>s. es_id s = submission_id) (exercise_submissions_tbl db) of
        None \<Rightarrow> (db, None)
      | Some submission \<Rightarrow>
          (let submission1 = submission\<lparr>es_status := status\<rparr>;
               submission2 = (case score of
                                None \<Rightarrow> submission1
                              | Some sc \<Rightarrow> submission1\<lparr>es_score := Some sc\<rparr>);
               submission3 = (case feedback of
                                None \<Rightarrow> submission2
                              | Some fb \<Rightarrow> submission2\<lparr>es_feedback := Some fb\<rparr>);
               submission4 = (if status = ''passing''
                              then submission3\<lparr>es_completed_at := Some now\<rparr>
                              else submission3)
           in (db\<lparr>exercise_submissions_tbl :=
                    save_submission submission4 (exercise_submissions_tbl db)\<rparr>,
               Some submission4)))"

section \<open>Event notifier (\<open>app/services/kafka_service.py\<close>)\<close>

text \<open>
  The class attributes \<open>_producer\<close> and \<open>_is_disabled\<close> are the notifier's state. Two
  observation fields are added to it, which no operation reads: the number of connection
  attempts made so far and the events the broker has accepted. What the transport does
  when it is reached is an input of each call: whether creating and starting a producer
  succeeds, and whether \<open>send_and_wait\<close> succeeds.
\<close>

record event =
  ev_topic :: string
  ev_key :: "string option"
  ev_fields :: "(string \<times> json) list"

record kafka_service =
  producer :: "nat option"
  is_disabled :: bool
  connect_attempts :: nat
  delivered :: "event list"

record transport =
  connect_ok :: bool
  send_ok :: bool

definition initial_kafka :: kafka_service where
  "initial_kafka = \<lparr> producer = None, is_disabled = False, connect_attempts = 0, delivered = [] \<rparr>"

text \<open>
  \<open>get_producer\<close>: nothing is tried once the notifier is disabled; a cached producer is
  returned as it is; otherwise one connection attempt is made, and its failure disables the
  notifier.
\<close>

definition get_producer :: "transport \<Rightarrow> kafka_service \<Rightarrow> kafka_service \<times> nat option" where
  "get_producer t k =
     (if is_disabled k then (k, None)
      else if producer k = None then
        (if connect_ok t
         then (k\<lparr>producer := Some (connect_attempts k), connect_attempts := connect_attempts k + 1\<rparr>,
               Some (connect_attempts k))
         else (k\<lparr>is_disabled := True, producer := None, connect_attempts := connect_attempts k + 1\<rparr>,
               None))
      else (k, producer k))"

definition close_producer :: "kafka_service \<Rightarrow> kafka_service" where
  "close_producer k = (if producer k \<noteq> None then k\<lparr>producer := None\<rparr> else k)"

text \<open>
  The body of \<open>publish_event\<close> inside its \<open>try\<close>: \<open>Inl ()\<close> is an exception raised by
  \<open>send_and_wait\<close>.
\<close>

definition publish_event_try ::
  "transport \<Rightarrow> string \<Rightarrow> (string \<times> json) list \<Rightarrow> string option \<Rightarrow> kafka_service \<Rightarrow>
   (unit + unit) \<times> kafka_service" where
  "publish_event_try t topic body key k =
     (case get_producer t k of
        (k1, None) \<Rightarrow> (Inr (), k1)
      | (k1, Some p) \<Rightarrow>
          if send_ok t
          then (Inr (), k1\<lparr>delivered := delivered k1 @
                             [\<lparr>ev_topic = topic, ev_key = key, ev_fields = body\<rparr>]\<rparr>)
          else (Inl (), k1))"

text \<open>\<open>publish_event\<close>: the \<open>except Exception\<close> clause logs the exception and returns.\<close>

definition publish_event ::
  "transport \<Rightarrow> string \<Rightarrow> (string \<times> json) list \<Rightarrow> string option \<Rightarrow> kafka_service \<Rightarrow>
   (unit + unit) \<times> kafka_service" where
  "publish_event t topic body key k =
     (case publish_event_try t topic body key k of
        (Inl _, k1) \<Rightarrow> (Inr (), k1)
      | (Inr _, k1) \<Rightarrow> (Inr (), k1))"

definition opt_json :: "int option \<Rightarrow> json" where
  "opt_json v = (case v of None \<Rightarrow> JNull | Some i \<Rightarrow> JInt i)"

definition publish_submission_event ::
  "transport \<Rightarrow> int \<Rightarrow> int \<Rightarrow> int \<Rightarrow> string \<Rightarrow> datetime \<Rightarrow> kafka_service \<Rightarrow>
   (unit + unit) \<times> kafka_service" where
  "publish_submission_event t student_id exercise_id submission_id status now k =
     publish_event t ''exercise-submissions''
       [(''event_type'', JStr ''submission''), (''student_id'', JInt student_id),
        (''exercise_id'', JInt exercise_id), (''submission_id'', JInt submission_id),
        (''status'', JStr status), (''timestamp'', JInt now)]
       (Some (str_int submission_id)) k"

definition publish_progress_event ::
  "transport \<Rightarrow> int \<Rightarrow> int \<Rightarrow> string \<Rightarrow> int option \<Rightarrow> datetime \<Rightarrow> kafka_service \<Rightarrow>
   (unit + unit) \<times> kafka_service" where
  "publish_progress_event t student_id exercise_id status score now k =
     publish_event t ''progress-updates''
       [(''event_type'', JStr ''progress_update''), (''student_id'', JInt student_id),
        (''exercise_id'', JInt exercise_id), (''status'', JStr status),
        (''score'', opt_json score), (''timestamp'', JInt now)]
       (Some (str_int student_id @ '':'' @ str_int exercise_id)) k"

section \<open>Submission evaluation (\<open>app/routes/submissions.py\<close>, \<open>evaluate_submission\<close>)\<close>

text \<open>
  The handler of \<open>PUT /api/submissions/{submission_id}/evaluate\<close>. The \<open>HTTPException\<close> of
  \<open>get_current_teacher_id\<close> is re-raised as it is. Inside the body the parameter \<open>status\<close>,
  the text of the new status, hides the module \<open>fastapi.status\<close>, so
  \<open>status.HTTP_404_NOT_FOUND\<close> and \<open>status.HTTP_500_INTERNAL_SERVER_ERROR\<close> are attribute
  lookups on a \<open>str\<close> and raise \<open>AttributeError\<close>. For an unknown id the \<open>raise\<close> of the
  404 therefore raises \<open>AttributeError\<close>, the \<open>except Exception\<close> clause raises it again
  while it builds its own exception, and the application's handler for unhandled exceptions
  (\<open>global_exception_handler\<close> of \<open>main.py\<close>) answers 500; an exception of a publisher
  would end the same way. That answer is written \<open>HTTPException 500\<close>. The two transports
  are what the broker does at the first and at the second publish.
\<close>

definition evaluate_submission ::
  "int \<Rightarrow> string \<Rightarrow> request \<Rightarrow> int option \<Rightarrow> string option \<Rightarrow> transport \<Rightarrow> transport \<Rightarrow>
   datetime \<Rightarrow> database \<times> kafka_service \<Rightarrow>
   (http_exception + exercise_submission option) \<times> database \<times> kafka_service" where
  "evaluate_submission submission_id status request score feedback t1 t2 now st =
     (case st of (db, k) \<Rightarrow>
        (case get_current_teacher_id request of
           Inl e \<Rightarrow> (Inl e, db, k)
         | Inr current_teacher_id \<Rightarrow>
             (case get_submission db submission_id of
                None \<Rightarrow> (Inl (HTTPException 500), db, k)
              | Some submission \<Rightarrow>
                  (let (db1, updated_submission) =
                         update_submission_status db submission_id status score feedback now;
                       (db2, progress) =
                         update_progress db1 (es_student_id submission)
                           (es_exercise_id submission) status score now
                   in (case publish_submission_event t1 (es_student_id submission)
                              (es_exercise_id submission) submission_id status now k of
                         (Inl _, k1) \<Rightarrow> (Inl (HTTPException 500), db2, k1)
                       | (Inr _, k1) \<Rightarrow>
                           (case publish_progress_event t2 (es_student_id submission)
                                   (es_exercise_id submission) status score now k1 of
                              (Inl _, k2) \<Rightarrow> (Inl (HTTPException 500), db2, k2)
                            | (Inr _, k2) \<Rightarrow> (Inr updated_submission, db2, k2)))))))"

section \<open>Quiz assessment engine (\<open>app/routes/quizzes.py\<close>)\<close>

record quiz_answer_create =
  ac_question_id :: int
  ac_answer_text :: json

text \<open>
  \<open>submit_answer\<close>: role and ownership checks, lookup of the question in the quiz of the
  path, removal of an answer already stored for the (submission, question) pair, grading, and
  insertion of the new row. The flush inserts before it deletes, so the new key is drawn
  while the old row is still in the table.
\<close>

definition submit_answer ::
  "int \<Rightarrow> int \<Rightarrow> quiz_answer_create \<Rightarrow> request \<Rightarrow> datetime \<Rightarrow> database \<Rightarrow>
   (http_exception + quiz_answer) \<times> database" where
  "submit_answer path_quiz_id submission_id answer request now db =
     (case get_current_user_payload request of
        Inl e \<Rightarrow> (Inl e, db)
      | Inr current_user \<Rightarrow>
          if role current_user \<noteq> ''student'' then (Inl (HTTPException 403), db)
          else
            (case find (\<lambda>s. qs_id s = submission_id \<and> qs_student_id s = user_id current_user)
                    (quiz_submissions_tbl db) of
               None \<Rightarrow> (Inl (HTTPException 404), db)
             | Some submission \<Rightarrow>
                 (case find (\<lambda>q. qq_id q = ac_question_id answer \<and> qq_quiz_id q = path_quiz_id)
                         (quiz_questions_tbl db) of
                    None \<Rightarrow> (Inl (HTTPException 404), db)
                  | Some question \<Rightarrow>
                      (let existing_answer =
                             find (\<lambda>a. qa_submission_id a = submission_id \<and>
                                        qa_question_id a = ac_question_id answer)
                               (quiz_answers_tbl db);
                           remaining =
                             (case existing_answer of
                                None \<Rightarrow> quiz_answers_tbl db
                              | Some a \<Rightarrow> remove1 a (quiz_answers_tbl db));
                           is_correct =
                             (if qq_question_type question = ''multiple_choice''
                              then py_eq (ac_answer_text answer) (qq_correct_answer question)
                              else if qq_question_type question = ''true_false''
                              then py_eq (ac_answer_text answer) (qq_correct_answer question)
                              else if qq_question_type question = ''short_answer''
                              then strip (lower (py_str (ac_answer_text answer))) =
                                   strip (lower (py_str (qq_correct_answer question)))
                              else False);
                           points_earned = (if is_correct then qq_points question else 0);
                           db_answer =
                             \<lparr> qa_id = fresh_id (map qa_id (quiz_answers_tbl db)),
                               qa_submission_id = submission_id,
                               qa_question_id = ac_question_id answer,
                               qa_answer_text = ac_answer_text answer,
                               qa_is_correct = is_correct,
                               qa_points_earned = points_earned,
                               qa_answered_at = now \<rparr>
                       in (Inr db_answer, db\<lparr>quiz_answers_tbl := remaining @ [db_answer]\<rparr>)))))"

text \<open>\<open>int((total_points / max_score) * 100)\<close>.\<close>

definition percent_score :: "int \<Rightarrow> int \<Rightarrow> py_error + int" where
  "percent_score total_points max_score =
     (case true_divide total_points max_score of
        Inl e \<Rightarrow> Inl e
      | Inr ratio \<Rightarrow> int_of_float (float_mul_int ratio 100))"

definition save_quiz_submission ::
  "quiz_submission \<Rightarrow> quiz_submission list \<Rightarrow> quiz_submission list" where
  "save_quiz_submission s tbl = map (\<lambda>r. if qs_id r = qs_id s then s else r) tbl"

text \<open>
  \<open>complete_quiz\<close>: the submission is looked up by its id and owner, the quiz by the id of
  the path. An exception in the scoring (the arithmetic, or the comparison with a null
  passing score) rolls the session back and becomes a 500.
\<close>

definition complete_quiz ::
  "int \<Rightarrow> int \<Rightarrow> request \<Rightarrow> datetime \<Rightarrow> database \<Rightarrow>
   (http_exception + quiz_submission) \<times> database" where
  "complete_quiz path_quiz_id submission_id request now db =
     (case get_current_user_payload request of
        Inl e \<Rightarrow> (Inl e, db)
      | Inr current_user \<Rightarrow>
          if role current_user \<noteq> ''student'' then (Inl (HTTPException 403), db)
          else
            (case find (\<lambda>s. qs_id s = submission_id \<and> qs_student_id s = user_id current_user)
                    (quiz_submissions_tbl db) of
               None \<Rightarrow> (Inl (HTTPException 404), db)
             | Some submission \<Rightarrow>
                 (case find (\<lambda>q. quiz_id q = path_quiz_id) (quizzes_tbl db) of
                    None \<Rightarrow> (Inl (HTTPException 404), db)
                  | Some quiz \<Rightarrow>
                      (let all_answers =
                             filter (\<lambda>a. qa_submission_id a = submission_id) (quiz_answers_tbl db);
                           total_points = sum_list (map qa_points_earned all_answers);
                           max_points =
                             map qq_points
                               (filter (\<lambda>q. qq_quiz_id q = path_quiz_id) (quiz_questions_tbl db));
                           max_score = (if sum_list max_points = 0 then 1 else sum_list max_points)
                       in (case percent_score total_points max_score of
                             Inl e \<Rightarrow> (Inl (HTTPException 500), db)
                           | Inr score \<Rightarrow>
                               (case quiz_passing_score quiz of
                                  None \<Rightarrow> (Inl (HTTPException 500), db)
                                | Some passing \<Rightarrow>
                                    (let submission1 =
                                           submission\<lparr> qs_completed_at := Some now,
                                                        qs_score := Some score,
                                                        qs_passed := (score \<ge> passing) \<rparr>
                                     in (Inr submission1,
                                         db\<lparr>quiz_submissions_tbl :=
                                              save_quiz_submission submission1
                                                (quiz_submissions_tbl db)\<rparr>))))))))"

section \<open>Properties of the event notifier\<close>

text \<open>A history of notifier operations after some point in the process lifetime.\<close>

datatype kafka_op = Publish transport string "(string \<times> json) list" "string option" | Close

fun run_kafka :: "kafka_op list \<Rightarrow> kafka_service \<Rightarrow> kafka_service" where
  "run_kafka [] k = k"
| "run_kafka (Publish t topic body key # ops) k = run_kafka ops (snd (publish_event t topic body key k))"
| "run_kafka (Close # ops) k = run_kafka ops (close_producer k)"

lemma publish_event_returns: "fst (publish_event t topic body key k) = Inr ()"
  by (simp add: publish_event_def split: prod.splits sum.splits)

lemma publish_event_disabled:
  "is_disabled k \<Longrightarrow> publish_event t topic body key k = (Inr (), k)"
  by (simp add: publish_event_def publish_event_try_def get_producer_def)

lemma close_producer_disabled:
  "is_disabled k \<Longrightarrow> producer k = None \<Longrightarrow> close_producer k = k"
  by (simp add: close_producer_def)

lemma run_kafka_disabled:
  "is_disabled k \<Longrightarrow> producer k = None \<Longrightarrow> run_kafka ops k = k"
proof (induction ops arbitrary: k)
  case Nil
  then show ?case by simp
next
  case (Cons op ops)
  then show ?case
    by (cases op) (simp_all add: publish_event_disabled close_producer_disabled)
qed

lemma publish_event_connect_fails:
  "\<not> is_disabled k \<Longrightarrow> producer k = None \<Longrightarrow> \<not> connect_ok t \<Longrightarrow>
   publish_event t topic body key k =
     (Inr (), k\<lparr>is_disabled := True, producer := None, connect_attempts := connect_attempts k + 1\<rparr>)"
  by (simp add: publish_event_def publish_event_try_def get_producer_def)

lemma publish_event_cached:
  "\<not> is_disabled k \<Longrightarrow> producer k = Some p \<Longrightarrow>
   publish_event t topic body key k =
     (Inr (), if send_ok t
              then k\<lparr>delivered := delivered k @ [\<lparr>ev_topic = topic, ev_key = key, ev_fields = body\<rparr>]\<rparr>
              else k)"
  by (simp add: publish_event_def publish_event_try_def get_producer_def)

lemma publish_event_first_use:
  "\<not> is_disabled k \<Longrightarrow> producer k = None \<Longrightarrow> connect_ok t \<Longrightarrow>
   producer (snd (publish_event t topic body key k)) = Some (connect_attempts k) \<and>
   connect_attempts (snd (publish_event t topic body key k)) = connect_attempts k + 1 \<and>
   \<not> is_disabled (snd (publish_event t topic body key k))"
  by (simp add: publish_event_def publish_event_try_def get_producer_def)

text \<open>
  Claim C8. When a connection attempt fails, the disabled flag is set, and from then on no
  sequence of publish and close operations changes the notifier's state: no further
  connection attempt is counted, nothing is delivered, and every publish returns at once.
  Before any failure the connection is lazy and cached: the initial state holds no producer
  and counts no attempt, the first publish makes the one attempt, and a publish that finds a
  cached producer makes none.
\<close>

theorem notifier_disabled_after_first_failure:
  assumes "\<not> is_disabled k" and "producer k = None" and "\<not> connect_ok t"
  shows "is_disabled (snd (publish_event t topic body key k)) \<and>
         connect_attempts (snd (publish_event t topic body key k)) = connect_attempts k + 1 \<and>
         (\<forall>ops. run_kafka ops (snd (publish_event t topic body key k)) =
                  snd (publish_event t topic body key k)) \<and>
         (\<forall>t' topic' body' key'.
            publish_event t' topic' body' key' (snd (publish_event t topic body key k)) =
              (Inr (), snd (publish_event t topic body key k))) \<and>
         producer initial_kafka = None \<and> connect_attempts initial_kafka = 0 \<and>
         \<not> is_disabled initial_kafka \<and>
         (\<forall>t' topic' body' key'.
            connect_ok t' \<longrightarrow>
              producer (snd (publish_event t' topic' body' key' k)) = Some (connect_attempts k) \<and>
              connect_attempts (snd (publish_event t' topic' body' key' k)) = connect_attempts k + 1) \<and>
         (\<forall>k' p t' topic' body' key'.
            \<not> is_disabled k' \<and> producer k' = Some p \<longrightarrow>
              producer (snd (publish_event t' topic' body' key' k')) = Some p \<and>
              connect_attempts (snd (publish_event t' topic' body' key' k')) = connect_attempts k')"
proof -
  let ?k1 = "snd (publish_event t topic body key k)"
  have k1: "?k1 = k\<lparr>is_disabled := True, producer := None, connect_attempts := connect_attempts k + 1\<rparr>"
    using assms by (simp add: publish_event_connect_fails)
  have d: "is_disabled ?k1" and p: "producer ?k1 = None" by (simp_all add: k1)
  have a: "run_kafka ops ?k1 = ?k1" for ops using d p by (rule run_kafka_disabled)
  have b: "publish_event t' topic' body' key' ?k1 = (Inr (), ?k1)" for t' topic' body' key'
    using d by (rule publish_event_disabled)
  have c: "connect_attempts ?k1 = connect_attempts k + 1" by (simp add: k1)
  have i: "producer initial_kafka = None \<and> connect_attempts initial_kafka = 0 \<and>
           \<not> is_disabled initial_kafka"
    by (simp add: initial_kafka_def)
  have f: "connect_ok t' \<longrightarrow>
              producer (snd (publish_event t' topic' body' key' k)) = Some (connect_attempts k) \<and>
              connect_attempts (snd (publish_event t' topic' body' key' k)) = connect_attempts k + 1"
    for t' topic' body' key'
    using assms(1,2) publish_event_first_use[of k t' topic' body' key'] by simp
  have g: "\<not> is_disabled k' \<and> producer k' = Some p \<longrightarrow>
              producer (snd (publish_event t' topic' body' key' k')) = Some p \<and>
              connect_attempts (snd (publish_event t' topic' body' key' k')) = connect_attempts k'"
    for k' p t' topic' body' key'
    by (simp add: publish_event_cached)
  from d c a b i f g show ?thesis by blast
qed

theorem notifier_disabled_after_first_failure_witness:
  "\<not> is_disabled initial_kafka \<and> producer initial_kafka = None \<and>
   \<not> connect_ok \<lparr>connect_ok = False, send_ok = True\<rparr> \<and>
   is_disabled (snd (publish_event \<lparr>connect_ok = False, send_ok = True\<rparr> ''progress-updates'' []
                       None initial_kafka)) \<and>
   run_kafka [Publish \<lparr>connect_ok = True, send_ok = True\<rparr> ''progress-updates'' [] None, Close,
              Publish \<lparr>connect_ok = True, send_ok = True\<rparr> ''exercise-submissions'' [] None]
     (snd (publish_event \<lparr>connect_ok = False, send_ok = True\<rparr> ''progress-updates'' [] None
             initial_kafka)) =
     snd (publish_event \<lparr>connect_ok = False, send_ok = True\<rparr> ''progress-updates'' [] None
            initial_kafka)"
proof -
  have h1: "\<not> is_disabled initial_kafka" by (simp add: initial_kafka_def)
  have h2: "producer initial_kafka = None" by (simp add: initial_kafka_def)
  have h3: "\<not> connect_ok \<lparr>connect_ok = False, send_ok = True\<rparr>" by simp
  from notifier_disabled_after_first_failure[OF h1 h2 h3, of "''progress-updates''" "[]" None]
  show ?thesis using h1 h2 by simp
qed


section \<open>Properties of submission evaluation\<close>

lemma find_map_replace:
  "find P tbl = Some p \<Longrightarrow> P q \<Longrightarrow> find P (map (\<lambda>r. if key r = key p then q else r) tbl) = Some q"
proof (induction tbl)
  case Nil
  then show ?case by simp
next
  case (Cons r rs)
  show ?case
  proof (cases "P r")
    case True
    with Cons.prems show ?thesis by simp
  next
    case False
    with Cons show ?thesis by simp
  qed
qed

lemma submissions_path_anonymous:
  assumes "\<not> substring_in ''/teacher'' (''/api/submissions/'' @ rest)"
  shows "get_current_user_payload \<lparr>url_path = ''/api/submissions/'' @ rest, x_session_id = h\<rparr> =
           Inr \<lparr> user_id = 0, email = [], role = ''anonymous'' \<rparr>"
  using assms
  by (simp add: get_current_user_payload_def protected_endpoints_def skip_auth_endpoints_def
        startswith_def)

lemma submissions_path_teacher_401:
  assumes "\<not> substring_in ''/teacher'' (''/api/submissions/'' @ rest)"
  shows "get_current_teacher_id \<lparr>url_path = ''/api/submissions/'' @ rest, x_session_id = h\<rparr> =
           Inl (HTTPException 401)"
  using submissions_path_anonymous[OF assms, of h] by (simp add: get_current_teacher_id_def)

lemma update_submission_status_unknown:
  "get_submission db submission_id = None \<Longrightarrow>
   update_submission_status db submission_id status score feedback now = (db, None)"
  by (simp add: update_submission_status_def get_submission_def)

lemma update_submission_status_existing:
  assumes "get_submission db submission_id = Some s"
  shows "\<exists>s'. snd (update_submission_status db submission_id status score feedback now) = Some s' \<and>
              es_status s' = status \<and> es_id s' = submission_id \<and>
              es_student_id s' = es_student_id s \<and> es_exercise_id s' = es_exercise_id s \<and>
              get_submission (fst (update_submission_status db submission_id status score feedback now))
                submission_id = Some s'"
proof -
  let ?P = "\<lambda>r. es_id r = submission_id"
  from assms have f: "find ?P (exercise_submissions_tbl db) = Some s"
    by (simp add: get_submission_def)
  then have sid: "es_id s = submission_id" by (rule find_Some_key)
  define s1 where "s1 = s\<lparr>es_status := status\<rparr>"
  define s2 where "s2 = (case score of None \<Rightarrow> s1 | Some sc \<Rightarrow> s1\<lparr>es_score := Some sc\<rparr>)"
  define s3 where "s3 = (case feedback of None \<Rightarrow> s2 | Some fb \<Rightarrow> s2\<lparr>es_feedback := Some fb\<rparr>)"
  define s4 where "s4 = (if status = ''passing'' then s3\<lparr>es_completed_at := Some now\<rparr> else s3)"
  have p: "es_status s4 = status \<and> es_id s4 = es_id s \<and> es_student_id s4 = es_student_id s \<and>
           es_exercise_id s4 = es_exercise_id s"
    by (simp add: s4_def s3_def s2_def s1_def split: option.splits)
  have u: "update_submission_status db submission_id status score feedback now =
             (db\<lparr>exercise_submissions_tbl := save_submission s4 (exercise_submissions_tbl db)\<rparr>, Some s4)"
    using f by (simp add: update_submission_status_def Let_def s4_def s3_def s2_def s1_def
                  split: option.splits)
  have "find ?P (map (\<lambda>r. if es_id r = es_id s then s4 else r) (exercise_submissions_tbl db)) = Some s4"
    using f p sid by (intro find_map_replace) simp_all
  then have "get_submission (db\<lparr>exercise_submissions_tbl := save_submission s4 (exercise_submissions_tbl db)\<rparr>)
               submission_id = Some s4"
    using p by (simp add: get_submission_def save_submission_def)
  with u p sid show ?thesis by simp
qed

lemma publish_submission_event_returns:
  "fst (publish_submission_event t a b c status now k) = Inr ()"
  by (simp add: publish_submission_event_def publish_event_returns)

lemma publish_progress_event_returns:
  "fst (publish_progress_event t a b status score now k) = Inr ()"
  by (simp add: publish_progress_event_def publish_event_returns)

lemma evaluate_submission_unfold:
  "evaluate_submission submission_id status request score feedback t1 t2 now (db, k) =
     (case get_current_teacher_id request of
        Inl e \<Rightarrow> (Inl e, db, k)
      | Inr tid \<Rightarrow>
          (case get_submission db submission_id of
             None \<Rightarrow> (Inl (HTTPException 500), db, k)
           | Some submission \<Rightarrow>
               (Inr (snd (update_submission_status db submission_id status score feedback now)),
                fst (update_progress
                       (fst (update_submission_status db submission_id status score feedback now))
                       (es_student_id submission) (es_exercise_id submission) status score now),
                snd (publish_progress_event t2 (es_student_id submission)
                       (es_exercise_id submission) status score now
                       (snd (publish_submission_event t1 (es_student_id submission)
                               (es_exercise_id submission) submission_id status now k))))))"
proof -
  have a: "publish_submission_event t1 x y z status now k =
             (Inr (), snd (publish_submission_event t1 x y z status now k))" for x y z
    using publish_submission_event_returns[of t1 x y z status now k]
    by (cases "publish_submission_event t1 x y z status now k") simp
  have b: "publish_progress_event t2 x y status score now k' =
             (Inr (), snd (publish_progress_event t2 x y status score now k'))" for x y k'
    using publish_progress_event_returns[of t2 x y status score now k']
    by (cases "publish_progress_event t2 x y status score now k'") simp
  show ?thesis
    unfolding evaluate_submission_def
    apply (simp split: sum.splits option.splits prod.splits add: Let_def)
    using a b by (metis fst_conv snd_conv sum.distinct(1))
qed


lemma no_teacher_in_digits:
  "list_all is_digit seg \<Longrightarrow> \<not> substring_in ''/teacher'' (seg @ ''/evaluate'')"
proof (induction seg)
  case Nil
  show ?case by (simp add: startswith_def)
next
  case (Cons c seg)
  from Cons.prems have "is_digit c" and "list_all is_digit seg" by simp_all
  from \<open>is_digit c\<close> have "c \<noteq> CHR ''/''" by (auto simp: is_digit_def)
  with Cons.IH[OF \<open>list_all is_digit seg\<close>] show ?case by (simp add: startswith_def)
qed

lemma evaluate_path_no_teacher:
  "list_all is_digit seg \<Longrightarrow>
   \<not> substring_in ''/teacher'' (''/api/submissions/'' @ seg @ ''/evaluate'')"
proof (cases seg)
  case Nil
  then show ?thesis by (simp add: startswith_def)
next
  case (Cons c cs)
  assume d: "list_all is_digit seg"
  with Cons have "c \<noteq> CHR ''t''" by (auto simp: is_digit_def)
  with no_teacher_in_digits[OF d] Cons show ?thesis by (simp add: startswith_def)
qed

lemma evaluate_submission_rejects_every_request:
  assumes "list_all is_digit seg"
  shows "evaluate_submission submission_id status
           \<lparr>url_path = ''/api/submissions/'' @ seg @ ''/evaluate'', x_session_id = h\<rparr>
           score feedback t1 t2 now (db, k) = (Inl (HTTPException 401), db, k)"
  using submissions_path_teacher_401[OF evaluate_path_no_teacher[OF assms], of h]
  by (simp add: evaluate_submission_unfold)

text \<open>
  Claim C3, at a request for a submission id that does not exist, sent with a teacher's
  session header: the handler answers 401 and not 404, because the path of the evaluation
  route is not among the protected endpoints and the anonymous payload is rejected before
  the lookup. The store and the notifier are unchanged, and the service function called
  with the unknown id returns \<open>None\<close> and changes nothing.
\<close>

theorem evaluate_submission_unknown_id:
  "evaluate_submission 999 ''passing''
     \<lparr>url_path = ''/api/submissions/999/evaluate'', x_session_id = Some ''teacher|7|t@example.com''\<rparr>
     (Some 90) None \<lparr>connect_ok = True, send_ok = True\<rparr> \<lparr>connect_ok = True, send_ok = True\<rparr>
     1000 (empty_db, initial_kafka) = (Inl (HTTPException 401), empty_db, initial_kafka) \<and>
   get_submission empty_db 999 = None \<and>
   update_submission_status empty_db 999 ''passing'' (Some 90) None 1000 = (empty_db, None)"
proof -
  have d: "list_all is_digit ''999''" by (simp add: is_digit_def)
  have g: "get_submission empty_db 999 = None" by (simp add: get_submission_def empty_db_def)
  from evaluate_submission_rejects_every_request[OF d] g update_submission_status_unknown[OF g]
  show ?thesis by simp
qed

text \<open>
  What the handler does once a teacher is identified and the submission is stored: whatever
  the transport does at either publish, the response carries the row with the new status,
  and that row is the one stored.
\<close>

lemma update_progress_submissions:
  "exercise_submissions_tbl (fst (update_progress db student_id exercise_id status score now)) =
     exercise_submissions_tbl db"
  by (simp add: update_progress_def create_progress_def Let_def split: option.splits prod.splits)

lemma evaluate_submission_authenticated:
  assumes "get_current_teacher_id request = Inr tid"
    and "get_submission db submission_id = Some s"
  shows "\<exists>s'. fst (evaluate_submission submission_id status request score feedback t1 t2 now (db, k)) =
                 Inr (Some s') \<and>
              es_status s' = status \<and>
              get_submission
                (fst (snd (evaluate_submission submission_id status request score feedback t1 t2 now
                             (db, k)))) submission_id = Some s'"
proof -
  from update_submission_status_existing[OF assms(2), of status score feedback now] obtain s' where
    u: "snd (update_submission_status db submission_id status score feedback now) = Some s'"
    and t: "es_status s' = status"
    and g: "get_submission (fst (update_submission_status db submission_id status score feedback now))
              submission_id = Some s'"
    by blast
  have "get_submission
          (fst (update_progress
                  (fst (update_submission_status db submission_id status score feedback now))
                  (es_student_id s) (es_exercise_id s) status score now)) submission_id = Some s'"
    using g by (simp add: get_submission_def update_progress_submissions)
  with u t assms show ?thesis by (simp add: evaluate_submission_unfold)
qed

text \<open>A stored submission, waiting for its evaluation.\<close>

definition one_submission :: exercise_submission where
  "one_submission = \<lparr> es_id = 1, es_student_id = 3, es_exercise_id = 5, es_code = ''print(1)'',
                       es_language = ''python'', es_status = ''submitted'', es_score = None,
                       es_feedback = None, es_submitted_at = 10, es_completed_at = None \<rparr>"

text \<open>
  Claim C7, at the evaluation of a stored submission by a request that carries a teacher's
  session header, while the broker refuses every connection. The two publishers return
  normally, and \<open>update_submission_status\<close> returns and stores the row with the new status.
  But the handler answers 401: the path of the evaluation route is not among the protected
  endpoints, the anonymous payload is rejected before the submission is read, and the stored
  row keeps the status \<open>submitted\<close>. The state transition does not return success, with the
  transport unreachable or not.
\<close>

theorem evaluate_submission_transport_unreachable:
  "evaluate_submission 1 ''passing''
     \<lparr>url_path = ''/api/submissions/1/evaluate'', x_session_id = Some ''teacher|7|t@example.com''\<rparr>
     (Some 90) None \<lparr>connect_ok = False, send_ok = False\<rparr> \<lparr>connect_ok = False, send_ok = False\<rparr>
     1000 (empty_db\<lparr>exercise_submissions_tbl := [one_submission]\<rparr>, initial_kafka) =
     (Inl (HTTPException 401), empty_db\<lparr>exercise_submissions_tbl := [one_submission]\<rparr>,
      initial_kafka) \<and>
   get_submission (empty_db\<lparr>exercise_submissions_tbl := [one_submission]\<rparr>) 1 =
     Some one_submission \<and>
   es_status one_submission = ''submitted'' \<and>
   fst (publish_submission_event \<lparr>connect_ok = False, send_ok = False\<rparr> 3 5 1 ''passing'' 1000
          initial_kafka) = Inr () \<and>
   fst (publish_progress_event \<lparr>connect_ok = False, send_ok = False\<rparr> 3 5 ''passing'' (Some 90) 1000
          (snd (publish_submission_event \<lparr>connect_ok = False, send_ok = False\<rparr> 3 5 1 ''passing''
                  1000 initial_kafka))) = Inr () \<and>
   update_submission_status (empty_db\<lparr>exercise_submissions_tbl := [one_submission]\<rparr>) 1
     ''passing'' (Some 90) None 1000 =
     (empty_db\<lparr>exercise_submissions_tbl :=
                 [one_submission\<lparr>es_status := ''passing'', es_score := Some 90,
                                  es_completed_at := Some 1000\<rparr>]\<rparr>,
      Some (one_submission\<lparr>es_status := ''passing'', es_score := Some 90,
                           es_completed_at := Some 1000\<rparr>))"
proof -
  have d: "list_all is_digit ''1''" by (simp add: is_digit_def)
  have g: "get_submission (empty_db\<lparr>exercise_submissions_tbl := [one_submission]\<rparr>) 1 =
             Some one_submission"
    by (simp add: get_submission_def one_submission_def)
  have s: "es_status one_submission = ''submitted''" by (simp add: one_submission_def)
  have u: "update_submission_status (empty_db\<lparr>exercise_submissions_tbl := [one_submission]\<rparr>) 1
     ''passing'' (Some 90) None 1000 =
     (empty_db\<lparr>exercise_submissions_tbl :=
                 [one_submission\<lparr>es_status := ''passing'', es_score := Some 90,
                                  es_completed_at := Some 1000\<rparr>]\<rparr>,
      Some (one_submission\<lparr>es_status := ''passing'', es_score := Some 90,
                           es_completed_at := Some 1000\<rparr>))"
    by (simp add: update_submission_status_def save_submission_def one_submission_def empty_db_def
          Let_def)
  from evaluate_submission_rejects_every_request[OF d] g s u show ?thesis
    by (simp add: publish_submission_event_returns publish_progress_event_returns)
qed

section \<open>Properties of answer submission\<close>

text \<open>A request of student 7 on a route of the quiz router.\<close>

definition student_request :: request where
  "student_request = \<lparr>url_path = ''/api/quizzes/1/submissions/1/answer'',
                        x_session_id = Some ''student|7|s@example.com''\<rparr>"

lemma student_request_payload:
  "get_current_user_payload student_request =
     Inr \<lparr>user_id = 7, email = ''s@example.com'', role = ''student''\<rparr>"
  by (simp add: student_request_def get_current_user_payload_def protected_endpoints_def
        skip_auth_endpoints_def startswith_def py_int_def strip_def is_space_def
        is_digit_def digits_value_def)

text \<open>On two payloads of the same kind \<open>py_eq\<close> is identity; a text equals no other kind.\<close>

lemma py_eq_same_kind:
  "py_eq JNull JNull" "py_eq (JBool a) (JBool b) = (a = b)"
  "py_eq (JInt i) (JInt j) = (i = j)" "py_eq (JStr s) (JStr t) = (s = t)"
  "\<not> py_eq (JStr s) (JInt i)" "\<not> py_eq (JStr s) (JBool b)" "\<not> py_eq (JStr s) JNull"
  by simp_all



text \<open>The rows of \<open>quiz_answers\<close> of one (submission, question) pair.\<close>

definition answer_pair :: "int \<Rightarrow> int \<Rightarrow> quiz_answer \<Rightarrow> bool" where
  "answer_pair submission_id question_id a =
     (qa_submission_id a = submission_id \<and> qa_question_id a = question_id)"

lemma find_Some_set: "find P xs = Some x \<Longrightarrow> x \<in> set xs"
  by (induction xs) (auto split: if_splits)

lemma filter_replace_one:
  assumes "length (filter P tbl) \<le> 1" and "P row"
  shows "filter P ((case find P tbl of None \<Rightarrow> tbl | Some a \<Rightarrow> remove1 a tbl) @ [row]) = [row]"
proof (cases "find P tbl")
  case None
  then have "filter P tbl = []" by (simp add: find_None_iff filter_empty_conv)
  with None assms(2) show ?thesis by simp
next
  case (Some a)
  then have "a \<in> set (filter P tbl)" by (simp add: find_Some_set find_Some_key)
  with assms(1) have "filter P tbl = [a]"
    by (cases "filter P tbl") auto
  then have "filter P (remove1 a tbl) = []" by (simp add: filter_remove1)
  with Some assms(2) show ?thesis by simp
qed

lemma filter_other_pair:
  assumes "\<not> Q row" and "\<And>a. P a \<Longrightarrow> \<not> Q a"
  shows "filter Q ((case find P tbl of None \<Rightarrow> tbl | Some a \<Rightarrow> remove1 a tbl) @ [row]) = filter Q tbl"
proof (cases "find P tbl")
  case None
  with assms(1) show ?thesis by simp
next
  case (Some a)
  then have "P a" by (rule find_Some_key)
  then have "a \<notin> set (filter Q tbl)" using assms(2) by simp
  then have "filter Q (remove1 a tbl) = filter Q tbl" by (simp add: filter_remove1 remove1_idem)
  with Some assms(1) show ?thesis by simp
qed

lemma fold_max_ge: "(a::int) \<le> fold max xs a"
  by (induction xs arbitrary: a) (auto intro: order_trans[OF max.cobounded2])

lemma fold_max_upper: "x \<in> set xs \<Longrightarrow> (x::int) \<le> fold max xs a"
proof (induction xs arbitrary: a)
  case Nil
  then show ?case by simp
next
  case (Cons y ys)
  show ?case
  proof (cases "x = y")
    case True
    have "x \<le> max y a" using True by simp
    also have "\<dots> \<le> fold max ys (max y a)" by (rule fold_max_ge)
    finally show ?thesis by simp
  next
    case False
    with Cons show ?thesis by simp
  qed
qed

lemma fresh_id_new: "fresh_id ids \<notin> set ids"
proof
  assume "fresh_id ids \<in> set ids"
  then have "fresh_id ids \<le> fold max ids 0" by (rule fold_max_upper)
  then show False by (simp add: fresh_id_def)
qed

lemma submit_answer_step:
  assumes "get_current_user_payload req = Inr u" and "role u = ''student''"
    and "find (\<lambda>s. qs_id s = sid \<and> qs_student_id s = user_id u) (quiz_submissions_tbl db) =
           Some submission"
    and "find (\<lambda>q. qq_id q = ac_question_id answer \<and> qq_quiz_id q = qz) (quiz_questions_tbl db) =
           Some question"
  shows "\<exists>row. submit_answer qz sid answer req now db =
           (Inr row,
            db\<lparr>quiz_answers_tbl :=
                 (case find (answer_pair sid (ac_question_id answer)) (quiz_answers_tbl db) of
                    None \<Rightarrow> quiz_answers_tbl db
                  | Some a \<Rightarrow> remove1 a (quiz_answers_tbl db)) @ [row]\<rparr>) \<and>
           answer_pair sid (ac_question_id answer) row \<and>
           qa_id row = fresh_id (map qa_id (quiz_answers_tbl db)) \<and>
           qa_answer_text row = ac_answer_text answer \<and>
           qa_answered_at row = now \<and>
           qa_is_correct row =
             (if qq_question_type question = ''multiple_choice''
              then py_eq (ac_answer_text answer) (qq_correct_answer question)
              else if qq_question_type question = ''true_false''
              then py_eq (ac_answer_text answer) (qq_correct_answer question)
              else if qq_question_type question = ''short_answer''
              then strip (lower (py_str (ac_answer_text answer))) =
                   strip (lower (py_str (qq_correct_answer question)))
              else False) \<and>
           qa_points_earned row = (if qa_is_correct row then qq_points question else 0)"
proof -
  have p: "answer_pair sid (ac_question_id answer) =
           (\<lambda>a. qa_submission_id a = sid \<and> qa_question_id a = ac_question_id answer)"
    by (rule ext) (simp add: answer_pair_def)
  show ?thesis
    using assms by (simp add: submit_answer_def Let_def p)
qed



text \<open>Repeated answers to one question of one submission: payload and clock of each call.\<close>

fun submit_answer_seq ::
  "int \<Rightarrow> int \<Rightarrow> int \<Rightarrow> request \<Rightarrow> (json \<times> datetime) list \<Rightarrow> database \<Rightarrow> database" where
  "submit_answer_seq qz sid qn req [] db = db"
| "submit_answer_seq qz sid qn req ((a, now) # calls) db =
     submit_answer_seq qz sid qn req calls
       (snd (submit_answer qz sid \<lparr>ac_question_id = qn, ac_answer_text = a\<rparr> req now db))"

lemma submit_answer_seq_snoc:
  "submit_answer_seq qz sid qn req (calls @ [(a, now)]) db =
     snd (submit_answer qz sid \<lparr>ac_question_id = qn, ac_answer_text = a\<rparr> req now
            (submit_answer_seq qz sid qn req calls db))"
  by (induction calls arbitrary: db) auto

lemma submit_answer_once:
  assumes "get_current_user_payload req = Inr u" and "role u = ''student''"
    and "find (\<lambda>s. qs_id s = sid \<and> qs_student_id s = user_id u) (quiz_submissions_tbl db) =
           Some submission"
    and "find (\<lambda>q. qq_id q = qn \<and> qq_quiz_id q = qz) (quiz_questions_tbl db) = Some question"
    and "length (filter (answer_pair sid qn) (quiz_answers_tbl db)) \<le> 1"
  shows "\<exists>row. submit_answer qz sid \<lparr>ac_question_id = qn, ac_answer_text = a\<rparr> req now db =
                 (Inr row, snd (submit_answer qz sid \<lparr>ac_question_id = qn, ac_answer_text = a\<rparr> req now db)) \<and>
          filter (answer_pair sid qn)
            (quiz_answers_tbl (snd (submit_answer qz sid \<lparr>ac_question_id = qn, ac_answer_text = a\<rparr> req now db))) = [row] \<and>
          quiz_submissions_tbl (snd (submit_answer qz sid \<lparr>ac_question_id = qn, ac_answer_text = a\<rparr> req now db)) =
            quiz_submissions_tbl db \<and>
          quiz_questions_tbl (snd (submit_answer qz sid \<lparr>ac_question_id = qn, ac_answer_text = a\<rparr> req now db)) =
            quiz_questions_tbl db \<and>
          qa_answer_text row = a \<and> qa_answered_at row = now \<and>
          qa_id row \<notin> set (map qa_id (quiz_answers_tbl db))"
proof -
  let ?ans = "\<lparr>ac_question_id = qn, ac_answer_text = a\<rparr>"
  have q: "find (\<lambda>q. qq_id q = ac_question_id ?ans \<and> qq_quiz_id q = qz) (quiz_questions_tbl db) =
             Some question"
    using assms(4) by simp
  from submit_answer_step[OF assms(1,2,3) q, of now] obtain row where
    r: "submit_answer qz sid ?ans req now db =
          (Inr row,
           db\<lparr>quiz_answers_tbl :=
                (case find (answer_pair sid qn) (quiz_answers_tbl db) of
                   None \<Rightarrow> quiz_answers_tbl db
                 | Some a \<Rightarrow> remove1 a (quiz_answers_tbl db)) @ [row]\<rparr>)"
    and p: "answer_pair sid qn row"
    and i: "qa_id row = fresh_id (map qa_id (quiz_answers_tbl db))"
    and t: "qa_answer_text row = a" "qa_answered_at row = now"
    by auto
  have "filter (answer_pair sid qn)
          ((case find (answer_pair sid qn) (quiz_answers_tbl db) of
              None \<Rightarrow> quiz_answers_tbl db
            | Some a \<Rightarrow> remove1 a (quiz_answers_tbl db)) @ [row]) = [row]"
    using assms(5) p by (rule filter_replace_one)
  moreover have "qa_id row \<notin> set (map qa_id (quiz_answers_tbl db))"
    unfolding i by (rule fresh_id_new)
  ultimately show ?thesis using r t by simp
qed

lemma submit_answer_seq_invariant:
  assumes "get_current_user_payload req = Inr u" and "role u = ''student''"
  shows "find (\<lambda>s. qs_id s = sid \<and> qs_student_id s = user_id u) (quiz_submissions_tbl db) =
           Some submission \<Longrightarrow>
         find (\<lambda>q. qq_id q = qn \<and> qq_quiz_id q = qz) (quiz_questions_tbl db) = Some question \<Longrightarrow>
         length (filter (answer_pair sid qn) (quiz_answers_tbl db)) \<le> 1 \<Longrightarrow>
         quiz_submissions_tbl (submit_answer_seq qz sid qn req calls db) = quiz_submissions_tbl db \<and>
         quiz_questions_tbl (submit_answer_seq qz sid qn req calls db) = quiz_questions_tbl db \<and>
         length (filter (answer_pair sid qn)
                   (quiz_answers_tbl (submit_answer_seq qz sid qn req calls db))) \<le> 1"
proof (induction calls arbitrary: db)
  case Nil
  then show ?case by simp
next
  case (Cons c calls)
  obtain a now where c: "c = (a, now)" by (cases c)
  let ?db1 = "snd (submit_answer qz sid \<lparr>ac_question_id = qn, ac_answer_text = a\<rparr> req now db)"
  from submit_answer_once[OF assms Cons.prems, of a now] obtain row where
    f: "filter (answer_pair sid qn) (quiz_answers_tbl ?db1) = [row]"
    and s: "quiz_submissions_tbl ?db1 = quiz_submissions_tbl db"
    and q: "quiz_questions_tbl ?db1 = quiz_questions_tbl db"
    by blast
  have "quiz_submissions_tbl (submit_answer_seq qz sid qn req calls ?db1) = quiz_submissions_tbl ?db1 \<and>
        quiz_questions_tbl (submit_answer_seq qz sid qn req calls ?db1) = quiz_questions_tbl ?db1 \<and>
        length (filter (answer_pair sid qn)
                  (quiz_answers_tbl (submit_answer_seq qz sid qn req calls ?db1))) \<le> 1"
    using Cons.prems f s q by (intro Cons.IH) simp_all
  then show ?case by (simp add: c s q)
qed

text \<open>
  Claim C4. For a student's own submission and a question of the quiz, starting from a table
  with at most one answer for the pair: after any number of earlier \<open>submit_answer\<close> calls
  for the pair and one more, exactly one row is stored for the pair; it is the row the last
  call returned, it carries the last call's payload and clock, and its key is the key of no
  row stored before that call, so the replaced row is gone and not updated.
\<close>

theorem submit_answer_replaces:
  assumes "get_current_user_payload req = Inr u" and "role u = ''student''"
    and "find (\<lambda>s. qs_id s = sid \<and> qs_student_id s = user_id u) (quiz_submissions_tbl db) =
           Some submission"
    and "find (\<lambda>q. qq_id q = qn \<and> qq_quiz_id q = qz) (quiz_questions_tbl db) = Some question"
    and "length (filter (answer_pair sid qn) (quiz_answers_tbl db)) \<le> 1"
  shows "\<exists>row. fst (submit_answer qz sid \<lparr>ac_question_id = qn, ac_answer_text = a\<rparr> req now
                      (submit_answer_seq qz sid qn req calls db)) = Inr row \<and>
          filter (answer_pair sid qn)
            (quiz_answers_tbl (submit_answer_seq qz sid qn req (calls @ [(a, now)]) db)) = [row] \<and>
          qa_answer_text row = a \<and> qa_answered_at row = now \<and>
          qa_id row \<notin> set (map qa_id (quiz_answers_tbl (submit_answer_seq qz sid qn req calls db)))"
proof -
  let ?db = "submit_answer_seq qz sid qn req calls db"
  from submit_answer_seq_invariant[OF assms, of calls] have
    s: "find (\<lambda>s. qs_id s = sid \<and> qs_student_id s = user_id u) (quiz_submissions_tbl ?db) =
           Some submission"
    and q: "find (\<lambda>q. qq_id q = qn \<and> qq_quiz_id q = qz) (quiz_questions_tbl ?db) = Some question"
    and l: "length (filter (answer_pair sid qn) (quiz_answers_tbl ?db)) \<le> 1"
    using assms(3,4) by simp_all
  from submit_answer_once[OF assms(1,2) s q l, of a now] obtain row where
    e: "submit_answer qz sid \<lparr>ac_question_id = qn, ac_answer_text = a\<rparr> req now ?db =
       (Inr row, snd (submit_answer qz sid \<lparr>ac_question_id = qn, ac_answer_text = a\<rparr> req now ?db))"
    and f: "filter (answer_pair sid qn)
       (quiz_answers_tbl (snd (submit_answer qz sid \<lparr>ac_question_id = qn, ac_answer_text = a\<rparr> req now ?db))) = [row]"
    and t: "qa_answer_text row = a" "qa_answered_at row = now"
    and i: "qa_id row \<notin> set (map qa_id (quiz_answers_tbl ?db))"
    by blast
  from e have "fst (submit_answer qz sid \<lparr>ac_question_id = qn, ac_answer_text = a\<rparr> req now ?db) = Inr row"
    by (metis fst_conv)
  moreover from f have "filter (answer_pair sid qn)
            (quiz_answers_tbl (submit_answer_seq qz sid qn req (calls @ [(a, now)]) db)) = [row]"
    by (simp only: submit_answer_seq_snoc)
  ultimately show ?thesis using t i by blast
qed

section \<open>A sample quiz\<close>

text \<open>
  A quiz of 100 points with a short-answer and a multiple-choice question, and one
  submission of student 7.
\<close>

definition quiz_db :: database where
  "quiz_db = empty_db
     \<lparr> quizzes_tbl := [\<lparr>quiz_id = 1, quiz_teacher_id = Some 2, quiz_passing_score = Some 29\<rparr>],
       quiz_questions_tbl :=
         [\<lparr>qq_id = 1, qq_quiz_id = 1, qq_question_type = ''short_answer'',
           qq_correct_answer = JStr ''Paris'', qq_points = 29\<rparr>,
          \<lparr>qq_id = 2, qq_quiz_id = 1, qq_question_type = ''multiple_choice'',
           qq_correct_answer = JStr ''B'', qq_points = 71\<rparr>],
       quiz_submissions_tbl :=
         [\<lparr>qs_id = 1, qs_student_id = 7, qs_quiz_id = 1, qs_started_at = 0,
           qs_completed_at = None, qs_score = None, qs_passed = False\<rparr>] \<rparr>"


lemma quiz_db_submission:
  "find (\<lambda>s. qs_id s = 1 \<and> qs_student_id s = 7) (quiz_submissions_tbl quiz_db) =
     Some \<lparr>qs_id = 1, qs_student_id = 7, qs_quiz_id = 1, qs_started_at = 0,
           qs_completed_at = None, qs_score = None, qs_passed = False\<rparr>"
  by (simp add: quiz_db_def empty_db_def)


lemma quiz_db_question_2:
  "find (\<lambda>q. qq_id q = 2 \<and> qq_quiz_id q = 1) (quiz_questions_tbl quiz_db) =
     Some \<lparr>qq_id = 2, qq_quiz_id = 1, qq_question_type = ''multiple_choice'',
           qq_correct_answer = JStr ''B'', qq_points = 71\<rparr>"
  by (simp add: quiz_db_def empty_db_def)


theorem submit_answer_replaces_witness:
  "get_current_user_payload student_request =
     Inr \<lparr>user_id = 7, email = ''s@example.com'', role = ''student''\<rparr> \<and>
   length (filter (answer_pair 1 2) (quiz_answers_tbl quiz_db)) \<le> 1 \<and>
   (\<exists>row. filter (answer_pair 1 2)
            (quiz_answers_tbl
               (submit_answer_seq 1 1 2 student_request ([(JStr ''A'', 10)] @ [(JStr ''B'', 20)])
                  quiz_db)) = [row] \<and>
          qa_answer_text row = JStr ''B'' \<and> qa_answered_at row = 20)"
proof -
  have r: "role \<lparr>user_id = 7, email = ''s@example.com'', role = ''student''\<rparr> = ''student''"
    by simp
  have s: "find (\<lambda>s. qs_id s = 1 \<and>
                     qs_student_id s = user_id \<lparr>user_id = 7, email = ''s@example.com'', role = ''student''\<rparr>)
             (quiz_submissions_tbl quiz_db) =
           Some \<lparr>qs_id = 1, qs_student_id = 7, qs_quiz_id = 1, qs_started_at = 0,
                 qs_completed_at = None, qs_score = None, qs_passed = False\<rparr>"
    using quiz_db_submission by simp
  have l: "length (filter (answer_pair 1 2) (quiz_answers_tbl quiz_db)) \<le> 1"
    by (simp add: quiz_db_def empty_db_def)
  from submit_answer_replaces[OF student_request_payload r s quiz_db_question_2 l,
         of "JStr ''B''" 20 "[(JStr ''A'', 10)]"]
  obtain row where
    "filter (answer_pair 1 2)
            (quiz_answers_tbl
               (submit_answer_seq 1 1 2 student_request ([(JStr ''A'', 10)] @ [(JStr ''B'', 20)])
                  quiz_db)) = [row]"
    "qa_answer_text row = JStr ''B''" "qa_answered_at row = 20"
    by blast
  with student_request_payload l show ?thesis by blast
qed

section \<open>Properties of quiz completion\<close>

text \<open>
  The two sums of \<open>complete_quiz\<close>: \<open>total_points\<close> over the answers of the submission, and
  \<open>max_score\<close> over the questions of the quiz of the path, with \<open>or 1\<close>.
\<close>

definition total_points_of :: "database \<Rightarrow> int \<Rightarrow> int" where
  "total_points_of db submission_id =
     sum_list (map qa_points_earned
                 (filter (\<lambda>a. qa_submission_id a = submission_id) (quiz_answers_tbl db)))"

definition max_score_of :: "database \<Rightarrow> int \<Rightarrow> int" where
  "max_score_of db path_quiz_id =
     (if sum_list (map qq_points
                     (filter (\<lambda>q. qq_quiz_id q = path_quiz_id) (quiz_questions_tbl db))) = 0
      then 1
      else sum_list (map qq_points
                       (filter (\<lambda>q. qq_quiz_id q = path_quiz_id) (quiz_questions_tbl db))))"

lemma max_score_of_nonzero: "max_score_of db qz \<noteq> 0"
  by (simp add: max_score_of_def)

lemma percent_score_no_zero_division:
  "percent_score total_points (max_score_of db qz) \<noteq> Inl ZeroDivisionError"
  by (auto simp: percent_score_def true_divide_def max_score_of_nonzero int_of_float_def
           split: option.splits sum.splits double.splits prod.splits)

text \<open>A submission that earned nothing scores 0, and a quiz without questions has \<open>max_score = 1\<close>.\<close>

lemma percent_score_zero: "m \<noteq> 0 \<Longrightarrow> percent_score 0 m = Inr 0"
  by (simp add: percent_score_def true_divide_def round_double_def float_mul_int_def
        int_of_float_def)

lemma max_score_of_no_questions:
  "filter (\<lambda>q. qq_quiz_id q = qz) (quiz_questions_tbl db) = [] \<Longrightarrow> max_score_of db qz = 1"
  by (simp add: max_score_of_def)

lemma complete_quiz_success:
  assumes "get_current_user_payload req = Inr u" and "role u = ''student''"
    and "find (\<lambda>s. qs_id s = sid \<and> qs_student_id s = user_id u) (quiz_submissions_tbl db) =
           Some submission"
    and "find (\<lambda>q. quiz_id q = qz) (quizzes_tbl db) = Some quiz"
    and "percent_score (total_points_of db sid) (max_score_of db qz) = Inr sc"
    and "quiz_passing_score quiz = Some passing"
  shows "complete_quiz qz sid req now db =
           (Inr (submission\<lparr>qs_completed_at := Some now, qs_score := Some sc,
                             qs_passed := (passing \<le> sc)\<rparr>),
            db\<lparr>quiz_submissions_tbl :=
                 save_quiz_submission
                   (submission\<lparr>qs_completed_at := Some now, qs_score := Some sc,
                                qs_passed := (passing \<le> sc)\<rparr>)
                   (quiz_submissions_tbl db)\<rparr>)"
  using assms
  by (simp add: complete_quiz_def Let_def total_points_of_def max_score_of_def)

lemma complete_quiz_inversion:
  assumes "complete_quiz qz sid req now db = (Inr r, db')"
  shows "\<exists>u submission quiz sc passing.
           get_current_user_payload req = Inr u \<and> role u = ''student'' \<and>
           find (\<lambda>s. qs_id s = sid \<and> qs_student_id s = user_id u) (quiz_submissions_tbl db) =
             Some submission \<and>
           find (\<lambda>q. quiz_id q = qz) (quizzes_tbl db) = Some quiz \<and>
           percent_score (total_points_of db sid) (max_score_of db qz) = Inr sc \<and>
           quiz_passing_score quiz = Some passing"
  using assms
  by (auto simp: complete_quiz_def Let_def total_points_of_def max_score_of_def
           split: sum.splits if_splits option.splits)

text \<open>
  Claim C9. \<open>complete_quiz\<close> never compares the submission's quiz with the quiz of the path:
  for a student's own submission started against another quiz, it succeeds, and the score is
  the percentage of the points earned by the submission's own answers over the points of the
  questions of the quiz of the path, compared with the passing score of the quiz of the path.
\<close>

theorem complete_quiz_ignores_submission_quiz:
  assumes "get_current_user_payload req = Inr u" and "role u = ''student''"
    and "find (\<lambda>s. qs_id s = sid \<and> qs_student_id s = user_id u) (quiz_submissions_tbl db) =
           Some submission"
    and "qs_quiz_id submission \<noteq> qz"
    and "find (\<lambda>q. quiz_id q = qz) (quizzes_tbl db) = Some quiz"
    and "quiz_passing_score quiz = Some passing"
    and "percent_score (total_points_of db sid) (max_score_of db qz) = Inr sc"
  shows "\<exists>db'. complete_quiz qz sid req now db =
           (Inr (submission\<lparr>qs_completed_at := Some now, qs_score := Some sc,
                             qs_passed := (passing \<le> sc)\<rparr>), db') \<and>
         total_points_of db sid =
           sum_list (map qa_points_earned
                       (filter (\<lambda>a. qa_submission_id a = sid) (quiz_answers_tbl db))) \<and>
         max_score_of db qz =
           (if sum_list (map qq_points (filter (\<lambda>q. qq_quiz_id q = qz) (quiz_questions_tbl db))) = 0
            then 1
            else sum_list (map qq_points (filter (\<lambda>q. qq_quiz_id q = qz) (quiz_questions_tbl db))))"
  using complete_quiz_success[OF assms(1,2,3,5,7,6), of now]
  by (simp add: total_points_of_def max_score_of_def)

text \<open>
  Claim C6. A second \<open>complete_quiz\<close> on the state the first one left, at any later time,
  succeeds with the same score and the same passed flag: the first call changes only the
  submission row, which the scoring does not read.
\<close>

theorem complete_quiz_idempotent_score:
  assumes "complete_quiz qz sid req now db = (Inr r1, db1)"
  shows "\<exists>r2 db2. complete_quiz qz sid req now' db1 = (Inr r2, db2) \<and>
                  qs_score r2 = qs_score r1 \<and> qs_passed r2 = qs_passed r1"
proof -
  from complete_quiz_inversion[OF assms] obtain u submission quiz sc passing where
    h: "get_current_user_payload req = Inr u" "role u = ''student''"
       "find (\<lambda>s. qs_id s = sid \<and> qs_student_id s = user_id u) (quiz_submissions_tbl db) =
          Some submission"
       "find (\<lambda>q. quiz_id q = qz) (quizzes_tbl db) = Some quiz"
       "percent_score (total_points_of db sid) (max_score_of db qz) = Inr sc"
       "quiz_passing_score quiz = Some passing"
    by blast
  let ?r = "submission\<lparr>qs_completed_at := Some now, qs_score := Some sc, qs_passed := (passing \<le> sc)\<rparr>"
  from complete_quiz_success[OF h, of now] assms have
    r1: "r1 = ?r"
    and db1: "db1 = db\<lparr>quiz_submissions_tbl := save_quiz_submission ?r (quiz_submissions_tbl db)\<rparr>"
    by simp_all
  have key: "qs_id submission = sid \<and> qs_student_id submission = user_id u"
    using h(3) by (rule find_Some_key)
  have "find (\<lambda>s. qs_id s = sid \<and> qs_student_id s = user_id u)
          (map (\<lambda>x. if qs_id x = qs_id submission then ?r else x) (quiz_submissions_tbl db)) = Some ?r"
    using h(3) key by (intro find_map_replace) simp_all
  then have s1: "find (\<lambda>s. qs_id s = sid \<and> qs_student_id s = user_id u) (quiz_submissions_tbl db1) =
               Some r1"
    by (simp add: db1 r1 save_quiz_submission_def)
  have q1: "find (\<lambda>q. quiz_id q = qz) (quizzes_tbl db1) = Some quiz"
    using h(4) by (simp add: db1)
  have t: "total_points_of db1 sid = total_points_of db sid"
    by (simp add: db1 total_points_of_def)
  have m: "max_score_of db1 qz = max_score_of db qz"
    by (simp add: db1 max_score_of_def)
  have p1: "percent_score (total_points_of db1 sid) (max_score_of db1 qz) = Inr sc"
    using h(5) by (simp only: t m)
  from complete_quiz_success[OF h(1,2) s1 q1 p1 h(6), of now'] show ?thesis
    by (simp add: r1)
qed

section \<open>Scoring the sample quiz\<close>

text \<open>\<open>int((29 / 100) * 100)\<close>, step by step.\<close>

lemma bit_length_29: "bit_length 29 = 5" by simp
lemma bit_length_100: "bit_length 100 = 7" by simp

lemma floor_log2_29_100: "floor_log2 29 100 = -2"
  by (simp add: floor_log2_def bit_length_29 bit_length_100 del: bit_length.simps)

lemma round_double_29_100: "round_double 29 100 = Some (5224175567749775, -54)"
  by (simp add: round_double_def floor_log2_29_100 round_half_even_def Let_def)

lemma true_divide_29_100: "true_divide 29 100 = Inr (Finite 5224175567749775 (-54))"
  by (simp add: true_divide_def round_double_29_100)

lemma bit_length_product: "bit_length 522417556774977500 = 59" by simp
lemma bit_length_2_54: "bit_length 18014398509481984 = 55" by simp

lemma floor_log2_product: "floor_log2 522417556774977500 18014398509481984 = 4"
  by (simp add: floor_log2_def bit_length_product bit_length_2_54 del: bit_length.simps)

lemma round_double_product:
  "round_double 522417556774977500 18014398509481984 = Some (8162774324609023, -48)"
  by (simp add: round_double_def floor_log2_product round_half_even_def Let_def)

lemma float_mul_29_100:
  "float_mul_int (Finite 5224175567749775 (-54)) 100 = Finite 8162774324609023 (-48)"
  by (simp add: float_mul_int_def round_double_product)

lemma percent_score_29_100: "percent_score 29 100 = Inr 28"
  by (simp add: percent_score_def true_divide_29_100 float_mul_29_100 int_of_float_def)

text \<open>A request of student 7 on a route below \<open>/api/quizzes/\<close>.\<close>

definition quiz_request :: "string \<Rightarrow> request" where
  "quiz_request rest = \<lparr>url_path = ''/api/quizzes/'' @ rest,
                          x_session_id = Some ''student|7|s@example.com''\<rparr>"

lemma quiz_request_payload:
  "get_current_user_payload (quiz_request rest) =
     Inr \<lparr>user_id = 7, email = ''s@example.com'', role = ''student''\<rparr>"
  by (simp add: quiz_request_def get_current_user_payload_def protected_endpoints_def
        skip_auth_endpoints_def startswith_def py_int_def strip_def is_space_def
        is_digit_def digits_value_def)

text \<open>
  The sample quiz after answers were stored: submission 1 answered question 1 correctly and
  question 2 wrongly; submission 2, started against quiz 2, holds a correct answer to
  question 1 of quiz 1, as \<open>submit_answer\<close> with the path of quiz 1 stores it.
\<close>

definition answered_db :: database where
  "answered_db = quiz_db
     \<lparr> quizzes_tbl := quizzes_tbl quiz_db @
         [\<lparr>quiz_id = 2, quiz_teacher_id = Some 2, quiz_passing_score = Some 70\<rparr>],
       quiz_submissions_tbl := quiz_submissions_tbl quiz_db @
         [\<lparr>qs_id = 2, qs_student_id = 7, qs_quiz_id = 2, qs_started_at = 5,
           qs_completed_at = None, qs_score = None, qs_passed = False\<rparr>],
       quiz_answers_tbl :=
         [\<lparr>qa_id = 1, qa_submission_id = 1, qa_question_id = 1, qa_answer_text = JStr ''Paris'',
           qa_is_correct = True, qa_points_earned = 29, qa_answered_at = 50\<rparr>,
          \<lparr>qa_id = 2, qa_submission_id = 1, qa_question_id = 2, qa_answer_text = JStr ''A'',
           qa_is_correct = False, qa_points_earned = 0, qa_answered_at = 51\<rparr>,
          \<lparr>qa_id = 3, qa_submission_id = 2, qa_question_id = 1, qa_answer_text = JStr ''paris'',
           qa_is_correct = True, qa_points_earned = 29, qa_answered_at = 52\<rparr>] \<rparr>"

lemma answered_db_totals:
  "total_points_of answered_db 1 = 29" "total_points_of answered_db 2 = 29"
  "max_score_of answered_db 1 = 100"
  by (simp_all add: answered_db_def quiz_db_def empty_db_def total_points_of_def max_score_of_def)

lemma answered_db_submission_1:
  "find (\<lambda>s. qs_id s = 1 \<and> qs_student_id s = 7) (quiz_submissions_tbl answered_db) =
     Some \<lparr>qs_id = 1, qs_student_id = 7, qs_quiz_id = 1, qs_started_at = 0,
           qs_completed_at = None, qs_score = None, qs_passed = False\<rparr>"
  by (simp add: answered_db_def quiz_db_def empty_db_def)

lemma answered_db_submission_2:
  "find (\<lambda>s. qs_id s = 2 \<and> qs_student_id s = 7) (quiz_submissions_tbl answered_db) =
     Some \<lparr>qs_id = 2, qs_student_id = 7, qs_quiz_id = 2, qs_started_at = 5,
           qs_completed_at = None, qs_score = None, qs_passed = False\<rparr>"
  by (simp add: answered_db_def quiz_db_def empty_db_def)

lemma answered_db_quiz_1:
  "find (\<lambda>q. quiz_id q = 1) (quizzes_tbl answered_db) =
     Some \<lparr>quiz_id = 1, quiz_teacher_id = Some 2, quiz_passing_score = Some 29\<rparr>"
  by (simp add: answered_db_def quiz_db_def empty_db_def)


lemma student_7: "role \<lparr>user_id = 7, email = ''s@example.com'', role = ''student''\<rparr> = ''student''"
  by simp

lemma complete_quiz_1_1:
  "complete_quiz 1 1 (quiz_request ''1/submissions/1/complete'') now answered_db =
     (Inr \<lparr>qs_id = 1, qs_student_id = 7, qs_quiz_id = 1, qs_started_at = 0,
            qs_completed_at = Some now, qs_score = Some 28, qs_passed = False\<rparr>,
      answered_db\<lparr>quiz_submissions_tbl :=
        save_quiz_submission
          \<lparr>qs_id = 1, qs_student_id = 7, qs_quiz_id = 1, qs_started_at = 0,
            qs_completed_at = Some now, qs_score = Some 28, qs_passed = False\<rparr>
          (quiz_submissions_tbl answered_db)\<rparr>)"
proof -
  have s: "find (\<lambda>s. qs_id s = 1 \<and>
                     qs_student_id s = user_id \<lparr>user_id = 7, email = ''s@example.com'', role = ''student''\<rparr>)
             (quiz_submissions_tbl answered_db) =
           Some \<lparr>qs_id = 1, qs_student_id = 7, qs_quiz_id = 1, qs_started_at = 0,
                 qs_completed_at = None, qs_score = None, qs_passed = False\<rparr>"
    using answered_db_submission_1 by simp
  have p: "percent_score (total_points_of answered_db 1) (max_score_of answered_db 1) = Inr 28"
    by (simp only: answered_db_totals percent_score_29_100)
  have ps: "quiz_passing_score \<lparr>quiz_id = 1, quiz_teacher_id = Some 2, quiz_passing_score = Some 29\<rparr> = Some 29"
    by simp
  from complete_quiz_success[OF quiz_request_payload student_7 s answered_db_quiz_1 p ps, where now = now]
  show ?thesis by simp
qed

text \<open>
  Claim C1, at a submission that earned 29 of the 100 points of its quiz, whose passing
  score is 29: \<open>int((29 / 100) * 100)\<close> is 28, since the double nearest to 0.29 times 100
  rounds to 28.999999999999996, so the stored score is 28 and \<open>passed\<close> is false, where
  \<open>floor(100 * 29 / 100)\<close> is 29 and reaches the passing score.
\<close>

theorem complete_quiz_score_29_of_100:
  "total_points_of answered_db 1 = 29 \<and> max_score_of answered_db 1 = 100 \<and>
   fst (complete_quiz 1 1 (quiz_request ''1/submissions/1/complete'') 60 answered_db) =
     Inr \<lparr>qs_id = 1, qs_student_id = 7, qs_quiz_id = 1, qs_started_at = 0,
           qs_completed_at = Some 60, qs_score = Some 28, qs_passed = False\<rparr> \<and>
   (100 * total_points_of answered_db 1) div max_score_of answered_db 1 = 29"
  by (simp add: complete_quiz_1_1 answered_db_totals)

theorem complete_quiz_idempotent_score_witness:
  "\<exists>r1 db1 r2 db2.
     complete_quiz 1 1 (quiz_request ''1/submissions/1/complete'') 60 answered_db = (Inr r1, db1) \<and>
     complete_quiz 1 1 (quiz_request ''1/submissions/1/complete'') 70 db1 = (Inr r2, db2) \<and>
     qs_score r2 = qs_score r1 \<and> qs_passed r2 = qs_passed r1 \<and> qs_score r1 = Some 28"
proof -
  obtain r1 db1 where
    e: "complete_quiz 1 1 (quiz_request ''1/submissions/1/complete'') 60 answered_db = (Inr r1, db1)"
    and s: "qs_score r1 = Some 28"
    using complete_quiz_1_1[of 60] by simp
  from complete_quiz_idempotent_score[OF e, of 70] obtain r2 db2 where
    "complete_quiz 1 1 (quiz_request ''1/submissions/1/complete'') 70 db1 = (Inr r2, db2)"
    "qs_score r2 = qs_score r1" "qs_passed r2 = qs_passed r1"
    by blast
  with e s show ?thesis by blast
qed

theorem complete_quiz_ignores_submission_quiz_witness:
  "get_current_user_payload (quiz_request ''1/submissions/2/complete'') =
     Inr \<lparr>user_id = 7, email = ''s@example.com'', role = ''student''\<rparr> \<and>
   find (\<lambda>s. qs_id s = 2 \<and> qs_student_id s = 7) (quiz_submissions_tbl answered_db) =
     Some \<lparr>qs_id = 2, qs_student_id = 7, qs_quiz_id = 2, qs_started_at = 5,
           qs_completed_at = None, qs_score = None, qs_passed = False\<rparr> \<and>
   (\<exists>db'. complete_quiz 1 2 (quiz_request ''1/submissions/2/complete'') 60 answered_db =
      (Inr \<lparr>qs_id = 2, qs_student_id = 7, qs_quiz_id = 2, qs_started_at = 5,
             qs_completed_at = Some 60, qs_score = Some 28, qs_passed = False\<rparr>, db'))"
proof -
  let ?sub = "\<lparr>qs_id = 2, qs_student_id = 7, qs_quiz_id = 2, qs_started_at = 5,
           qs_completed_at = None, qs_score = None, qs_passed = False\<rparr>"
  have s: "find (\<lambda>s. qs_id s = 2 \<and>
                     qs_student_id s = user_id \<lparr>user_id = 7, email = ''s@example.com'', role = ''student''\<rparr>)
             (quiz_submissions_tbl answered_db) = Some ?sub"
    using answered_db_submission_2 by simp
  have n: "qs_quiz_id ?sub \<noteq> 1" by simp
  have p: "percent_score (total_points_of answered_db 2) (max_score_of answered_db 1) = Inr 28"
    by (simp only: answered_db_totals percent_score_29_100)
  have ps: "quiz_passing_score \<lparr>quiz_id = 1, quiz_teacher_id = Some 2, quiz_passing_score = Some 29\<rparr> = Some 29"
    by simp
  from complete_quiz_ignores_submission_quiz
         [OF quiz_request_payload student_7 s n answered_db_quiz_1 ps p, where now = 60]
  obtain db' where
    "complete_quiz 1 2 (quiz_request ''1/submissions/2/complete'') 60 answered_db =
       (Inr (?sub\<lparr>qs_completed_at := Some 60, qs_score := Some 28, qs_passed := ((29::int) \<le> 28)\<rparr>), db')"
    by blast
  then have "complete_quiz 1 2 (quiz_request ''1/submissions/2/complete'') 60 answered_db =
      (Inr \<lparr>qs_id = 2, qs_student_id = 7, qs_quiz_id = 2, qs_started_at = 5,
             qs_completed_at = Some 60, qs_score = Some 28, qs_passed = False\<rparr>, db')"
    by simp
  with quiz_request_payload answered_db_submission_2 show ?thesis by blast
qed

end
